theory Spec2Isabelle
  imports Main "HOL-Library.Multiset"
begin

section \<open>Python values used by the scanner module\<close>

text \<open>
  The module \<^verbatim>\<open>backend/app/modules/network_scanner.py\<close> is modelled function by function.
  Python strings are \<^typ>\<open>string\<close> (code points below 256), Python integers are
  \<^typ>\<open>int\<close>, \<^verbatim>\<open>len\<close> is \<^const>\<open>length\<close>, and an exception is a value of
  \<open>py_error\<close>.
\<close>

datatype py_error =
    NameError string
  | IndexError
  | KeyError
  | ValueError
  | TypeError
  | AttributeError
  | UnicodeDecodeError
  | OSError

text \<open>\<^verbatim>\<open>str(n)\<close> for an integer: decimal digits, a leading minus sign when negative.\<close>

definition digit_char :: "nat \<Rightarrow> char" where
  "digit_char d = char_of (48 + d)"

fun str_nat :: "nat \<Rightarrow> string" where
  "str_nat n = (if n < 10 then [digit_char n] else str_nat (n div 10) @ [digit_char (n mod 10)])"

declare str_nat.simps [simp del]

definition str_int :: "int \<Rightarrow> string" where
  "str_int i = (if i < 0 then CHR ''-'' # str_nat (nat (- i)) else str_nat (nat i))"

text \<open>\<^verbatim>\<open>sep.join(xs)\<close>.\<close>

fun join :: "string \<Rightarrow> string list \<Rightarrow> string" where
  "join sep [] = []"
| "join sep [x] = x"
| "join sep (x # y # ys) = x @ sep @ join sep (y # ys)"

section \<open>Risk engine: \<^verbatim>\<open>NetworkScanner._assess_scan_risks\<close>\<close>

text \<open>
  An entry of \<^verbatim>\<open>open_ports\<close> is the dictionary built in \<^verbatim>\<open>analyze_scan_results\<close>
  (keys target, port, service, protocol); the risk engine reads only its port.
\<close>

record open_port =
  op_target :: string
  op_port :: int
  op_service :: "string option"
  op_protocol :: "string option"

record risk_assessment =
  risk_level :: string
  risk_score :: int
  risk_factors :: "string list"
  total_open_ports :: nat
  unique_services :: nat

definition high_risk_ports :: "int list" where
  "high_risk_ports = [21, 23, 135, 139, 445, 1433, 3389]"

definition unencrypted_services :: "string list" where
  "unencrypted_services = [''ftp'', ''telnet'', ''http'', ''smtp'']"

text \<open>
  Lines 614 to 635: the running \<^verbatim>\<open>risk_score\<close> and \<^verbatim>\<open>risk_factors\<close> after the three
  checks, before the level is chosen and before the score is cut at 100.
\<close>

definition score_and_factors :: "open_port list \<Rightarrow> string list \<Rightarrow> int \<times> string list" where
  "score_and_factors open_ports services =
    (let risk_score = 0;
         risk_factors = [];
         found_high_risk_ports = filter (\<lambda>p. op_port p \<in> set high_risk_ports) open_ports;
         (risk_score, risk_factors) =
           (if found_high_risk_ports \<noteq> []
            then (risk_score + int (length found_high_risk_ports) * 20,
                  risk_factors @ [str_nat (length found_high_risk_ports) @ '' high-risk ports detected''])
            else (risk_score, risk_factors));
         (risk_score, risk_factors) =
           (if length open_ports > 50
            then (risk_score + 30, risk_factors @ [''Large attack surface (50+ open ports)''])
            else (risk_score, risk_factors));
         found_unencrypted = filter (\<lambda>s. s \<in> set unencrypted_services) services;
         (risk_score, risk_factors) =
           (if found_unencrypted \<noteq> []
            then (risk_score + int (length found_unencrypted) * 15,
                  risk_factors @ [''Unencrypted services: '' @ join '', '' found_unencrypted])
            else (risk_score, risk_factors))
     in (risk_score, risk_factors))"

definition raw_risk_score :: "open_port list \<Rightarrow> string list \<Rightarrow> int" where
  "raw_risk_score open_ports services = fst (score_and_factors open_ports services)"

definition assess_scan_risks :: "open_port list \<Rightarrow> string list \<Rightarrow> risk_assessment" where
  "assess_scan_risks open_ports services =
    (let (risk_score, risk_factors) = score_and_factors open_ports services;
         risk_level =
           (if risk_score \<ge> 100 then ''critical''
            else if risk_score \<ge> 70 then ''high''
            else if risk_score \<ge> 40 then ''medium''
            else ''low'')
     in \<lparr> risk_level = risk_level,
          risk_score = min risk_score 100,
          risk_factors = risk_factors,
          total_open_ports = length open_ports,
          unique_services = length (remdups services) \<rparr>)"

text \<open>
  The reading of the specification for the unencrypted-service term: 15 for each distinct
  matching name.
\<close>

definition spec_distinct_unencrypted_contribution :: "string list \<Rightarrow> int" where
  "spec_distinct_unencrypted_contribution services =
     15 * int (length (remdups (filter (\<lambda>s. s \<in> set unencrypted_services) services)))"

text \<open>An open port on a host, as \<^verbatim>\<open>analyze_scan_results\<close> records it.\<close>

definition tcp_port :: "int \<Rightarrow> open_port" where
  "tcp_port n = \<lparr> op_target = ''10.0.0.5'', op_port = n, op_service = None, op_protocol = Some ''tcp'' \<rparr>"

section \<open>Data model: targets, results, the active-scan registry\<close>

datatype ScanType =
    PING_SWEEP | PORT_SCAN | SERVICE_DETECTION | OS_DETECTION
  | VULNERABILITY_SCAN | STEALTH_SCAN | UDP_SCAN | COMPREHENSIVE

datatype ScanIntensity = LIGHT | NORMAL | AGGRESSIVE | INSANE

text \<open>
  \<^verbatim>\<open>ScanTarget\<close>. An \<^verbatim>\<open>Optional[List[int]]\<close> field is an \<open>int list option\<close>;
  \<^verbatim>\<open>if target.ports:\<close> holds for a list that is neither \<^verbatim>\<open>None\<close> nor empty.
\<close>

record ScanTarget =
  target :: string
  target_type :: string
  ports :: "int list option"
  exclude_ports :: "int list option"
  description :: string

text \<open>
  The dictionaries a parser builds. In \<open>port_info\<close> the key \<^verbatim>\<open>product\<close> exists only
  when the port had a service element: \<open>pi_product = None\<close> is the absent key,
  \<open>Some None\<close> the key bound to \<^verbatim>\<open>None\<close>.
\<close>

record port_info =
  pi_port :: int
  pi_protocol :: "string option"
  pi_state :: "string option"
  pi_service :: "string option"
  pi_version :: "string option"
  pi_product :: "string option option"

record service_info =
  si_port :: int
  si_service :: string
  si_version :: "string option"
  si_product :: "string option"

record findings =
  res_ports :: "port_info list"
  res_host_info :: "(string \<times> string option) list"
  res_services :: "service_info list"

record host =
  host_ip :: string
  host_hostname :: "string option"
  host_status :: string

text \<open>The \<^verbatim>\<open>results\<close> dictionary of a scan result: empty, a host list, or port findings.\<close>

datatype results = NoResults | Hosts "host list" | Findings findings

text \<open>An entry of \<^verbatim>\<open>errors\<close>: captured text, or \<^verbatim>\<open>str(e)\<close> of a caught exception.\<close>

datatype error_text = Text string | StrOf py_error

text \<open>\<^verbatim>\<open>ScanResult\<close>. Times are microseconds on the clock of \<^verbatim>\<open>datetime.utcnow()\<close>.\<close>

record ScanResult =
  res_target :: string
  res_scan_type :: ScanType
  status :: string
  start_time :: int
  end_time :: "int option"
  results :: results
  raw_output :: string
  errors :: "error_text list"

text \<open>An entry of \<^verbatim>\<open>active_scans\<close>: the dictionary with keys result, paused, cancelled.\<close>

record handle =
  h_result :: ScanResult
  paused :: bool
  cancelled :: bool

record RateLimiter =
  requests_per_minute :: int
  request_times :: "int list"

record NetworkScanner =
  active_scans :: "string \<rightharpoonup> handle"
  scan_history :: "ScanResult list"
  rate_limiter :: RateLimiter

section \<open>Command builder: \<^verbatim>\<open>NetworkScanner._build_nmap_command\<close>\<close>

text \<open>\<^verbatim>\<open>d.get(k, default)\<close> on a dictionary literal, kept as its list of items.\<close>

definition dict_get :: "('k \<times> 'v) list \<Rightarrow> 'k \<Rightarrow> 'v \<Rightarrow> 'v" where
  "dict_get d k dflt = (case map_of d k of Some v \<Rightarrow> v | None \<Rightarrow> dflt)"

definition scan_type_map :: "(string \<times> string list) list" where
  "scan_type_map =
    [(''tcp_connect'', [''-sT'']),
     (''tcp_syn'', [''-sS'']),
     (''udp'', [''-sU'']),
     (''stealth'', [''-sS'', ''-f'']),
     (''version'', [''-sV'']),
     (''os'', [''-O'']),
     (''comprehensive'', [''-sS'', ''-sV'', ''-O'', ''-A''])]"

definition intensity_map :: "(ScanIntensity \<times> string list) list" where
  "intensity_map =
    [(LIGHT, [''-T1'', ''--max-retries'', ''1'']),
     (NORMAL, [''-T3'', ''--max-retries'', ''2'']),
     (AGGRESSIVE, [''-T4'', ''--max-retries'', ''3'']),
     (INSANE, [''-T5'', ''--max-retries'', ''5''])]"

text \<open>Lines 350 to 353: the arguments added for \<^verbatim>\<open>target.ports\<close>.\<close>

definition port_args :: "ScanTarget \<Rightarrow> string list" where
  "port_args tgt =
    (case ports tgt of
       None \<Rightarrow> []
     | Some ps \<Rightarrow> if ps \<noteq> [] then [''-p'', join '','' (map str_int ps)] else [])"

text \<open>
  The default of the intensity lookup is \<^verbatim>\<open>intensity_map[ScanIntensity.NORMAL]\<close>, an
  entry the literal always has.
\<close>

definition build_nmap_command :: "ScanTarget \<Rightarrow> string \<Rightarrow> ScanIntensity \<Rightarrow> string list" where
  "build_nmap_command tgt scan_type intensity =
    (let command = [''nmap''];
         command = command @ dict_get scan_type_map scan_type [''-sT''];
         command = command @ dict_get intensity_map intensity (dict_get intensity_map NORMAL []);
         command = command @ port_args tgt;
         command = command @ [''-oX'', ''-''];
         command = command @ [target tgt]
     in command)"

text \<open>
  The method as the interpreter runs it. A call works on the state of the program: the
  attributes of the scanner object \<^verbatim>\<open>self\<close> and the list objects that exist, a
  reference to a list being its position among them. The first statement creates the list
  object \<^verbatim>\<open>command\<close>, \<^verbatim>\<open>command.extend\<close> and \<^verbatim>\<open>command.append\<close> change it in
  place, and the method returns the reference. The two dictionary literals are built anew by every call
  and only read.
\<close>

record py_state =
  scanner :: NetworkScanner
  list_objects :: "string list list"

definition new_list :: "string list \<Rightarrow> py_state \<Rightarrow> nat \<times> py_state" where
  "new_list xs s = (length (list_objects s), s\<lparr> list_objects := list_objects s @ [xs] \<rparr>)"

text \<open>A reference always names an existing list; the model leaves the state alone otherwise.\<close>

definition list_extend :: "nat \<Rightarrow> string list \<Rightarrow> py_state \<Rightarrow> py_state" where
  "list_extend r xs s =
     (if r < length (list_objects s)
      then s\<lparr> list_objects := (list_objects s)[r := list_objects s ! r @ xs] \<rparr>
      else s)"

definition list_append :: "nat \<Rightarrow> string \<Rightarrow> py_state \<Rightarrow> py_state" where
  "list_append r x s = list_extend r [x] s"

definition build_nmap_command_method ::
  "ScanTarget \<Rightarrow> string \<Rightarrow> ScanIntensity \<Rightarrow> py_state \<Rightarrow> nat \<times> py_state" where
  "build_nmap_command_method tgt scan_type intensity s =
    (let (command, s) = new_list [''nmap''] s;
         s = list_extend command (dict_get scan_type_map scan_type [''-sT'']) s;
         s = list_extend command (dict_get intensity_map intensity (dict_get intensity_map NORMAL [])) s;
         s = (case ports tgt of
                None \<Rightarrow> s
              | Some ps \<Rightarrow>
                  if ps \<noteq> [] then
                    (let ports_str = join '','' (map str_int ps)
                     in list_extend command [''-p'', ports_str] s)
                  else s);
         s = list_extend command [''-oX'', ''-''] s;
         s = list_append command (target tgt) s
     in (command, s))"

text \<open>The list a call returned: the object its reference names in the state it left.\<close>

definition returned_list :: "nat \<times> py_state \<Rightarrow> string list" where
  "returned_list call = list_objects (snd call) ! fst call"

text \<open>The reading of the specification for the port argument: the ports in ascending order.\<close>

definition spec_ascending_ports_str :: "int list \<Rightarrow> string" where
  "spec_ascending_ports_str ps = join '','' (map str_int (sort ps))"

section \<open>Scan control: \<^verbatim>\<open>pause_scan\<close>, \<^verbatim>\<open>resume_scan\<close>, \<^verbatim>\<open>cancel_scan\<close>\<close>

text \<open>Each returns its boolean and the scanner after the call.\<close>

definition pause_scan :: "NetworkScanner \<Rightarrow> string \<Rightarrow> bool \<times> NetworkScanner" where
  "pause_scan self scan_id =
    (case active_scans self scan_id of
       Some h \<Rightarrow> (True, self\<lparr>active_scans := (active_scans self)(scan_id \<mapsto> h\<lparr>paused := True\<rparr>)\<rparr>)
     | None \<Rightarrow> (False, self))"

definition resume_scan :: "NetworkScanner \<Rightarrow> string \<Rightarrow> bool \<times> NetworkScanner" where
  "resume_scan self scan_id =
    (case active_scans self scan_id of
       Some h \<Rightarrow> (True, self\<lparr>active_scans := (active_scans self)(scan_id \<mapsto> h\<lparr>paused := False\<rparr>)\<rparr>)
     | None \<Rightarrow> (False, self))"

definition cancel_scan :: "NetworkScanner \<Rightarrow> string \<Rightarrow> bool \<times> NetworkScanner" where
  "cancel_scan self scan_id =
    (case active_scans self scan_id of
       Some h \<Rightarrow> (True, self\<lparr>active_scans := (active_scans self)(scan_id \<mapsto> h\<lparr>cancelled := True\<rparr>)\<rparr>)
     | None \<Rightarrow> (False, self))"

text \<open>A scanner with one ping sweep in flight, as \<^verbatim>\<open>ping_sweep\<close> registers it.\<close>

definition running_sweep :: ScanResult where
  "running_sweep =
     \<lparr> res_target = ''192.168.1.0/24'', res_scan_type = PING_SWEEP, status = ''running'',
       start_time = 0, end_time = None, results = Hosts [], raw_output = [], errors = [] \<rparr>"

definition scanner_with_sweep :: NetworkScanner where
  "scanner_with_sweep =
     \<lparr> active_scans = [''ping_sweep_2024-01-01T00:00:00'' \<mapsto>
          \<lparr> h_result = running_sweep, paused = False, cancelled = False \<rparr>],
       scan_history = [],
       rate_limiter = \<lparr> requests_per_minute = 100, request_times = [] \<rparr> \<rparr>"

section \<open>String operations of the parsers\<close>

text \<open>
  Whitespace as \<^verbatim>\<open>str.split()\<close>, \<^verbatim>\<open>str.strip()\<close> and \<^verbatim>\<open>int()\<close> see it, among the code
  points below 256: tab, line feed, vertical tab, form feed, carriage return, the separators
  28 to 31, space, next line (133) and no-break space (160).
\<close>

definition is_space :: "char \<Rightarrow> bool" where
  "is_space c = ((of_char c :: nat) \<in> set [9, 10, 11, 12, 13, 28, 29, 30, 31, 32, 133, 160])"

text \<open>\<^verbatim>\<open>s.split()\<close>: the maximal runs of non-whitespace characters.\<close>

fun split_ws_from :: "string \<Rightarrow> string \<Rightarrow> string list" where
  "split_ws_from cur [] = (if cur = [] then [] else [cur])"
| "split_ws_from cur (c # cs) =
     (if is_space c
      then (if cur = [] then split_ws_from [] cs else cur # split_ws_from [] cs)
      else split_ws_from (cur @ [c]) cs)"

definition split_ws :: "string \<Rightarrow> string list" where
  "split_ws s = split_ws_from [] s"

text \<open>\<^verbatim>\<open>s.split(sep)\<close> for a separator of one character: empty pieces are kept.\<close>

fun split_on_from :: "char \<Rightarrow> string \<Rightarrow> string \<Rightarrow> string list" where
  "split_on_from sep cur [] = [cur]"
| "split_on_from sep cur (c # cs) =
     (if c = sep then cur # split_on_from sep [] cs else split_on_from sep (cur @ [c]) cs)"

definition split_on :: "char \<Rightarrow> string \<Rightarrow> string list" where
  "split_on sep s = split_on_from sep [] s"

text \<open>\<^verbatim>\<open>s.strip()\<close> and \<^verbatim>\<open>s.strip(chars)\<close>: drop the characters at both ends.\<close>

definition strip_chars :: "(char \<Rightarrow> bool) \<Rightarrow> string \<Rightarrow> string" where
  "strip_chars drops s = rev (dropWhile drops (rev (dropWhile drops s)))"

definition strip :: "string \<Rightarrow> string" where
  "strip s = strip_chars is_space s"

definition is_paren :: "char \<Rightarrow> bool" where
  "is_paren c = (c = CHR ''('' \<or> c = CHR '')'')"

text \<open>\<^verbatim>\<open>sub in s\<close> for strings.\<close>

fun contains :: "string \<Rightarrow> string \<Rightarrow> bool" where
  "contains sub [] = (sub = [])"
| "contains sub (c # cs) = (take (length sub) (c # cs) = sub \<or> contains sub cs)"

text \<open>\<^verbatim>\<open>xs[i]\<close> for a literal index \<open>i \<ge> 0\<close>.\<close>

definition index :: "'a list \<Rightarrow> nat \<Rightarrow> py_error + 'a" where
  "index xs i = (if i < length xs then Inr (xs ! i) else Inl IndexError)"

text \<open>
  \<^verbatim>\<open>int(s)\<close> for a string: surrounding whitespace is dropped, then an optional sign, then
  decimal digits, where single underscores may stand between digits. Anything else raises
  \<^verbatim>\<open>ValueError\<close>. The limit recent interpreters put on the number of digits is left out.
\<close>

definition is_digit :: "char \<Rightarrow> bool" where
  "is_digit c = (48 \<le> (of_char c :: nat) \<and> (of_char c :: nat) \<le> 57)"

definition digit_val :: "char \<Rightarrow> nat" where
  "digit_val c = of_char c - 48"

fun parse_digits :: "bool \<Rightarrow> nat \<Rightarrow> string \<Rightarrow> nat option" where
  "parse_digits after_digit acc [] = (if after_digit then Some acc else None)"
| "parse_digits after_digit acc (c # cs) =
     (if is_digit c then parse_digits True (acc * 10 + digit_val c) cs
      else if c = CHR ''_'' \<and> after_digit then parse_digits False acc cs
      else None)"

definition py_int :: "string \<Rightarrow> py_error + int" where
  "py_int s =
    (case strip s of
       [] \<Rightarrow> Inl ValueError
     | c # cs \<Rightarrow>
         if c = CHR ''-'' then
           (case parse_digits False 0 cs of None \<Rightarrow> Inl ValueError | Some n \<Rightarrow> Inr (- int n))
         else if c = CHR ''+'' then
           (case parse_digits False 0 cs of None \<Rightarrow> Inl ValueError | Some n \<Rightarrow> Inr (int n))
         else
           (case parse_digits False 0 (c # cs) of None \<Rightarrow> Inl ValueError | Some n \<Rightarrow> Inr (int n)))"

text \<open>A loop whose body may raise: the first exception ends it.\<close>

fun for_each :: "('a \<Rightarrow> 's \<Rightarrow> py_error + 's) \<Rightarrow> 'a list \<Rightarrow> 's \<Rightarrow> py_error + 's" where
  "for_each body [] s = Inr s"
| "for_each body (x # xs) s = (case body x s of Inl e \<Rightarrow> Inl e | Inr s' \<Rightarrow> for_each body xs s')"

section \<open>Ping sweep parser: \<^verbatim>\<open>NetworkScanner._parse_ping_sweep_results\<close>\<close>

text \<open>The body of the loop over the lines (lines 368 to 386), on the list \<^verbatim>\<open>hosts\<close>.\<close>

definition ping_sweep_line :: "string \<Rightarrow> host list \<Rightarrow> py_error + host list" where
  "ping_sweep_line line hosts =
    (if contains ''Nmap scan report for'' line then
       (let parts = split_ws line in
        if length parts \<ge> 5 then
          (case index parts 4 of
             Inl e \<Rightarrow> Inl e
           | Inr hostname \<Rightarrow>
               (case index parts 5 of
                  Inl e \<Rightarrow> Inl e
                | Inr parts5 \<Rightarrow>
                    (let ip = strip_chars is_paren parts5 in
                     Inr (hosts @ [\<lparr> host_ip = ip,
                                     host_hostname = (if hostname \<noteq> ip then Some hostname else None),
                                     host_status = ''up'' \<rparr>]))))
        else
          (case index parts 4 of
             Inl e \<Rightarrow> Inl e
           | Inr ip \<Rightarrow> Inr (hosts @ [\<lparr> host_ip = ip, host_hostname = None, host_status = ''up'' \<rparr>])))
     else Inr hosts)"

definition parse_ping_sweep_results :: "string \<Rightarrow> py_error + host list" where
  "parse_ping_sweep_results nmap_output =
     for_each ping_sweep_line (split_on (CHR 0x0A) nmap_output) []"

section \<open>Port scan parsers: \<^verbatim>\<open>_parse_port_scan_results\<close> and \<^verbatim>\<open>_parse_port_scan_text\<close>\<close>

text \<open>
  An element of the tree that \<^verbatim>\<open>xml.etree.ElementTree\<close> builds: tag, attributes, child
  elements. \<^verbatim>\<open>findall(name)\<close> gives the children with that tag, \<^verbatim>\<open>find(name)\<close> the first
  of them or \<^verbatim>\<open>None\<close>, \<^verbatim>\<open>get(key)\<close> the attribute or \<^verbatim>\<open>None\<close>.
\<close>

datatype xml = Element (tag: string) (attrib: "(string \<times> string) list") (children: "xml list")

definition findall :: "xml \<Rightarrow> string \<Rightarrow> xml list" where
  "findall e name = filter (\<lambda>c. tag c = name) (children e)"

definition find_elem :: "xml \<Rightarrow> string \<Rightarrow> xml option" where
  "find_elem e name = (case findall e name of [] \<Rightarrow> None | c # _ \<Rightarrow> Some c)"

definition get_attr :: "xml \<Rightarrow> string \<Rightarrow> string option" where
  "get_attr e key = map_of (attrib e) key"

text \<open>\<^verbatim>\<open>d[k] = v\<close> on a dictionary kept as its list of items.\<close>

fun dict_set :: "('k \<times> 'v) list \<Rightarrow> 'k \<Rightarrow> 'v \<Rightarrow> ('k \<times> 'v) list" where
  "dict_set [] k v = [(k, v)]"
| "dict_set ((k', v') # d) k v = (if k' = k then (k, v) # d else (k', v') # dict_set d k v)"

definition empty_findings :: findings where
  "empty_findings = \<lparr> res_ports = [], res_host_info = [], res_services = [] \<rparr>"

text \<open>
  Lines 409 to 422: the dictionary for one port element. \<^verbatim>\<open>int(None)\<close> raises
  \<^verbatim>\<open>TypeError\<close>, \<^verbatim>\<open>None.get\<close> raises \<^verbatim>\<open>AttributeError\<close>.
\<close>

definition port_info_of :: "xml \<Rightarrow> py_error + port_info" where
  "port_info_of port =
    (case get_attr port ''portid'' of
       None \<Rightarrow> Inl TypeError
     | Some portid \<Rightarrow>
        (case py_int portid of
           Inl e \<Rightarrow> Inl e
         | Inr n \<Rightarrow>
            (case find_elem port ''state'' of
               None \<Rightarrow> Inl AttributeError
             | Some st \<Rightarrow>
                (let port_info = \<lparr> pi_port = n, pi_protocol = get_attr port ''protocol'',
                                    pi_state = get_attr st ''state'', pi_service = None,
                                    pi_version = None, pi_product = None \<rparr>
                 in Inr (case find_elem port ''service'' of
                           None \<Rightarrow> port_info
                         | Some service \<Rightarrow>
                             port_info\<lparr> pi_service := get_attr service ''name'',
                                        pi_version := get_attr service ''version'',
                                        pi_product := Some (get_attr service ''product'') \<rparr>)))))"

text \<open>Lines 424 to 433: record the port, and its service when the name is a non-empty string.\<close>

definition record_port :: "port_info \<Rightarrow> findings \<Rightarrow> py_error + findings" where
  "record_port port_info res =
    (let res = res\<lparr> res_ports := res_ports res @ [port_info] \<rparr> in
     case pi_service port_info of
       None \<Rightarrow> Inr res
     | Some name \<Rightarrow>
         if name \<noteq> [] then
           (case pi_product port_info of
              None \<Rightarrow> Inl KeyError
            | Some product \<Rightarrow>
                Inr (res\<lparr> res_services := res_services res @
                       [\<lparr> si_port = pi_port port_info, si_service = name,
                          si_version = pi_version port_info, si_product = product \<rparr>] \<rparr>))
         else Inr res)"

definition port_element :: "xml \<Rightarrow> findings \<Rightarrow> py_error + findings" where
  "port_element port res =
    (case port_info_of port of Inl e \<Rightarrow> Inl e | Inr port_info \<Rightarrow> record_port port_info res)"

definition address_element :: "xml \<Rightarrow> findings \<Rightarrow> findings" where
  "address_element address res =
    (if get_attr address ''addrtype'' = Some ''ipv4''
     then res\<lparr> res_host_info := dict_set (res_host_info res) ''ip'' (get_attr address ''addr'') \<rparr>
     else res)"

definition host_element :: "xml \<Rightarrow> findings \<Rightarrow> py_error + findings" where
  "host_element h res =
    (let res = fold address_element (findall h ''address'') res in
     for_each (\<lambda>ports_el. for_each port_element (findall ports_el ''port'')) (findall h ''ports'') res)"

text \<open>Lines 394 to 435: the body of the \<^verbatim>\<open>try\<close> once the document has been parsed.\<close>

definition structured_findings :: "xml \<Rightarrow> py_error + findings" where
  "structured_findings root = for_each host_element (findall root ''host'') empty_findings"

text \<open>The body of the loop of \<^verbatim>\<open>_parse_port_scan_text\<close> (lines 448 to 474).\<close>

definition port_scan_text_line :: "string \<Rightarrow> findings \<Rightarrow> py_error + findings" where
  "port_scan_text_line raw_line res =
    (let line = strip raw_line in
     if contains ''/tcp'' line \<and> (contains ''open'' line \<or> contains ''filtered'' line) then
       (let parts = split_ws line in
        if length parts \<ge> 2 then
          (case index parts 0 of
             Inl e \<Rightarrow> Inl e
           | Inr port_proto \<Rightarrow>
              (case index (split_on CHR ''/'' port_proto) 0 of
                 Inl e \<Rightarrow> Inl e
               | Inr port_num \<Rightarrow>
                  (case index parts 1 of
                     Inl e \<Rightarrow> Inl e
                   | Inr state \<Rightarrow>
                      (let service = (if length parts > 2 then parts ! 2 else ''unknown'') in
                       case py_int port_num of
                         Inl e \<Rightarrow> Inl e
                       | Inr n \<Rightarrow>
                          (let port_info = \<lparr> pi_port = n, pi_protocol = Some ''tcp'',
                                              pi_state = Some state, pi_service = Some service,
                                              pi_version = None, pi_product = None \<rparr>;
                               res = res\<lparr> res_ports := res_ports res @ [port_info] \<rparr>
                           in if service \<noteq> ''unknown''
                              then Inr (res\<lparr> res_services := res_services res @
                                          [\<lparr> si_port = n, si_service = service,
                                             si_version = None, si_product = None \<rparr>] \<rparr>)
                              else Inr res)))))
        else Inr res)
     else Inr res)"

definition parse_port_scan_text :: "string \<Rightarrow> py_error + findings" where
  "parse_port_scan_text text_output =
     for_each port_scan_text_line (split_on (CHR 0x0A) text_output) empty_findings"

text \<open>
  \<^verbatim>\<open>ET.fromstring\<close> belongs to the standard library, so the parser takes it as the
  parameter \<open>fromstring\<close>: on a string it either raises \<^verbatim>\<open>ET.ParseError\<close> or returns the
  root element. Only \<^verbatim>\<open>ET.ParseError\<close> is caught; any other exception of the \<^verbatim>\<open>try\<close>
  body leaves \<^verbatim>\<open>_parse_port_scan_results\<close>.
\<close>

datatype xml_parse = ParseError | Parsed xml

definition parse_port_scan_results :: "(string \<Rightarrow> xml_parse) \<Rightarrow> string \<Rightarrow> py_error + findings" where
  "parse_port_scan_results fromstring xml_output =
    (case fromstring xml_output of
       Parsed root \<Rightarrow> structured_findings root
     | ParseError \<Rightarrow> parse_port_scan_text xml_output)"

text \<open>
  The keys of the dictionary a \<open>port_info\<close> stands for: the five keys every entry has, and
  \<^verbatim>\<open>product\<close> when that key exists.
\<close>

definition port_info_keys :: "port_info \<Rightarrow> string list" where
  "port_info_keys p =
     [''port'', ''protocol'', ''state'', ''service'', ''version'']
       @ (case pi_product p of None \<Rightarrow> [] | Some product \<Rightarrow> [''product''])"

text \<open>
  The entry of the services list that each path appends for a port entry, if any: lines 468
  to 474 for the text path, lines 427 to 433 for the structured path.
\<close>

definition text_services :: "port_info \<Rightarrow> service_info list" where
  "text_services p =
    (case pi_service p of
       None \<Rightarrow> []
     | Some name \<Rightarrow>
         if name \<noteq> ''unknown''
         then [\<lparr> si_port = pi_port p, si_service = name, si_version = None, si_product = None \<rparr>]
         else [])"

definition structured_services :: "port_info \<Rightarrow> service_info list" where
  "structured_services p =
    (case pi_service p of
       None \<Rightarrow> []
     | Some name \<Rightarrow>
         if name \<noteq> []
         then [\<lparr> si_port = pi_port p, si_service = name, si_version = pi_version p,
                 si_product = (case pi_product p of None \<Rightarrow> None | Some product \<Rightarrow> product) \<rparr>]
         else [])"

text \<open>
  What the port entries of each path look like. A text entry has protocol \<^verbatim>\<open>tcp\<close>, a
  state and a service string, no version and no \<^verbatim>\<open>product\<close> key. A structured entry
  without \<^verbatim>\<open>product\<close> key has neither service nor version.
\<close>

definition text_port_entry :: "port_info \<Rightarrow> bool" where
  "text_port_entry p =
     (pi_protocol p = Some ''tcp'' \<and> pi_state p \<noteq> None \<and> pi_service p \<noteq> None
      \<and> pi_version p = None \<and> pi_product p = None)"

definition structured_port_entry :: "port_info \<Rightarrow> bool" where
  "structured_port_entry p =
     (pi_product p \<noteq> None \<or> (pi_service p = None \<and> pi_version p = None))"

text \<open>
  What the findings of each path look like: the text path leaves the host information
  empty, the structured path gives it no key other than \<^verbatim>\<open>ip\<close>; the services list is
  made of the entries of the ports, in order.
\<close>

definition text_shape :: "findings \<Rightarrow> bool" where
  "text_shape f =
     (res_host_info f = []
      \<and> list_all text_port_entry (res_ports f)
      \<and> res_services f = concat (map text_services (res_ports f)))"

definition structured_shape :: "findings \<Rightarrow> bool" where
  "structured_shape f =
     ((map fst (res_host_info f) = [] \<or> map fst (res_host_info f) = [''ip''])
      \<and> list_all structured_port_entry (res_ports f)
      \<and> res_services f = concat (map structured_services (res_ports f)))"

text \<open>
  Reports to parse. A text report has one line \<^verbatim>\<open><port>/tcp <state> <service>\<close> for each
  listed port, where the state is \<^verbatim>\<open>open\<close> or \<^verbatim>\<open>filtered\<close> and the service is a word
  without whitespace; \<open>text_port_info\<close> is the entry lines 459 to 465 build for such a line.
\<close>

definition token :: "string \<Rightarrow> bool" where
  "token t = (t \<noteq> [] \<and> list_all (\<lambda>c. \<not> is_space c) t)"

definition port_line :: "int \<times> string \<times> string \<Rightarrow> string" where
  "port_line e = (case e of (n, state, service) \<Rightarrow> str_int n @ ''/tcp '' @ state @ '' '' @ service)"

definition listed :: "int \<times> string \<times> string \<Rightarrow> bool" where
  "listed e = (case e of (n, state, service) \<Rightarrow> (state = ''open'' \<or> state = ''filtered'') \<and> token service)"

definition text_report :: "(int \<times> string \<times> string) list \<Rightarrow> string" where
  "text_report es = join [CHR 0x0A] (map port_line es)"

definition text_port_info :: "int \<times> string \<times> string \<Rightarrow> port_info" where
  "text_port_info e =
     (case e of (n, state, service) \<Rightarrow>
        \<lparr> pi_port = n, pi_protocol = Some ''tcp'', pi_state = Some state, pi_service = Some service,
          pi_version = None, pi_product = None \<rparr>)"

text \<open>
  A structured report is the element tree of one host with an IPv4 address and one port
  element for each listed port, with a service child when the port has a service name;
  \<open>xml_port_info\<close> is the entry lines 409 to 422 build for such an element.
\<close>

definition port_xml :: "int \<times> string \<times> string \<times> string option \<Rightarrow> xml" where
  "port_xml e =
     (case e of (n, protocol, state, service) \<Rightarrow>
        Element ''port'' [(''protocol'', protocol), (''portid'', str_int n)]
          (Element ''state'' [(''state'', state)] []
             # (case service of None \<Rightarrow> [] | Some name \<Rightarrow> [Element ''service'' [(''name'', name)] []])))"

definition xml_port_info :: "int \<times> string \<times> string \<times> string option \<Rightarrow> port_info" where
  "xml_port_info e =
     (case e of (n, protocol, state, service) \<Rightarrow>
        \<lparr> pi_port = n, pi_protocol = Some protocol, pi_state = Some state, pi_service = service,
          pi_version = None,
          pi_product = (case service of None \<Rightarrow> None | Some name \<Rightarrow> Some None) \<rparr>)"

definition host_report :: "string \<Rightarrow> (int \<times> string \<times> string \<times> string option) list \<Rightarrow> xml" where
  "host_report address es =
     Element ''nmaprun'' []
       [Element ''host'' []
          [Element ''address'' [(''addr'', address), (''addrtype'', ''ipv4'')] [],
           Element ''ports'' [] (map port_xml es)]]"

section \<open>Aggregation: the lists \<^verbatim>\<open>analyze_scan_results\<close> passes to the risk engine\<close>

text \<open>
  Lines 503 to 518: for every open port of every completed result with a \<^verbatim>\<open>ports\<close> key,
  one entry of \<^verbatim>\<open>all_ports\<close>, and its service name in \<^verbatim>\<open>all_services\<close> when the name
  is a non-empty string other than \<^verbatim>\<open>unknown\<close>.
\<close>

definition collect_port ::
  "string \<Rightarrow> port_info \<Rightarrow> open_port list \<times> string list \<Rightarrow> open_port list \<times> string list" where
  "collect_port result_target port acc =
    (case acc of (all_ports, all_services) \<Rightarrow>
       if pi_state port = Some ''open'' then
         (all_ports @ [\<lparr> op_target = result_target, op_port = pi_port port,
                         op_service = pi_service port, op_protocol = pi_protocol port \<rparr>],
          (case pi_service port of
             None \<Rightarrow> all_services
           | Some name \<Rightarrow>
               if name \<noteq> [] \<and> name \<noteq> ''unknown'' then all_services @ [name] else all_services))
       else (all_ports, all_services))"

definition collect_result ::
  "ScanResult \<Rightarrow> open_port list \<times> string list \<Rightarrow> open_port list \<times> string list" where
  "collect_result result acc =
    (if status result = ''completed'' then
       (case results result of
          Findings f \<Rightarrow> fold (collect_port (res_target result)) (res_ports f) acc
        | Hosts hs \<Rightarrow> acc
        | NoResults \<Rightarrow> acc)
     else acc)"

definition collect_findings :: "ScanResult list \<Rightarrow> open_port list \<times> string list" where
  "collect_findings scan_results = fold collect_result scan_results ([], [])"

text \<open>Line 556: the risk assessment of a list of scan results.\<close>

definition risk_assessment_of :: "ScanResult list \<Rightarrow> risk_assessment" where
  "risk_assessment_of scan_results =
    (case collect_findings scan_results of
       (all_ports, all_services) \<Rightarrow> assess_scan_risks all_ports all_services)"

text \<open>A completed scan of a host whose only open port is 2121, an FTP service.\<close>

definition ftp_host_result :: "string \<Rightarrow> ScanResult" where
  "ftp_host_result address =
     \<lparr> res_target = address, res_scan_type = PORT_SCAN, status = ''completed'',
       start_time = 0, end_time = Some 1000000,
       results = Findings
         \<lparr> res_ports = [\<lparr> pi_port = 2121, pi_protocol = Some ''tcp'', pi_state = Some ''open'',
                          pi_service = Some ''ftp'', pi_version = None, pi_product = Some None \<rparr>],
           res_host_info = [(''ip'', Some address)],
           res_services = [\<lparr> si_port = 2121, si_service = ''ftp'', si_version = None, si_product = None \<rparr>] \<rparr>,
       raw_output = [], errors = [] \<rparr>"

section \<open>Rate limiter: \<^verbatim>\<open>RateLimiter.wait\<close>\<close>

text \<open>
  The names bound at module level when a method of the module runs: the imports of lines 8 to
  21, the classes, and the instance \<^verbatim>\<open>network_scanner\<close>. A name a method uses that is
  neither local, nor here, nor a builtin raises \<^verbatim>\<open>NameError\<close>. Line 13 imports
  \<^verbatim>\<open>datetime\<close> only.
\<close>

definition module_globals :: "string list" where
  "module_globals =
    [''asyncio'', ''subprocess'', ''json'', ''ET'',
     ''Dict'', ''List'', ''Optional'', ''Any'', ''Callable'',
     ''datetime'', ''Enum'', ''dataclass'', ''ipaddress'', ''socket'', ''logger'',
     ''settings'', ''ai_service'',
     ''ScanType'', ''ScanIntensity'', ''ScanTarget'', ''ScanResult'',
     ''NetworkScanner'', ''RateLimiter'', ''network_scanner'']"

text \<open>\<^verbatim>\<open>timedelta(minutes=1)\<close> and one second, in microseconds.\<close>

definition minute :: int where
  "minute = 60000000"

definition second :: int where
  "second = 1000000"

text \<open>
  \<^verbatim>\<open>wait\<close> in a module with the global names \<open>globals\<close>, called when the clock reads
  \<open>now\<close>: it raises, or returns after sleeping the given time (0 when it does not sleep)
  with the limiter updated. \<^verbatim>\<open>min\<close> of an empty list raises \<^verbatim>\<open>ValueError\<close>.
\<close>

definition wait_in :: "string list \<Rightarrow> RateLimiter \<Rightarrow> int \<Rightarrow> py_error + (int \<times> RateLimiter)" where
  "wait_in globals self now =
    (if ''timedelta'' \<in> set globals then
       (let cutoff = now - minute;
            self = self\<lparr> request_times := filter (\<lambda>t. t > cutoff) (request_times self) \<rparr>
        in if int (length (request_times self)) \<ge> requests_per_minute self then
             (case request_times self of
                [] \<Rightarrow> Inl ValueError
              | t # ts \<Rightarrow>
                  (let oldest_request = fold min ts t;
                       wait_until = oldest_request + minute;
                       wait_time = wait_until - now;
                       slept = (if wait_time > 0 then wait_time else 0)
                   in Inr (slept, self\<lparr> request_times := request_times self @ [now] \<rparr>)))
           else Inr (0, self\<lparr> request_times := request_times self @ [now] \<rparr>))
     else Inl (NameError ''timedelta''))"

definition wait :: "RateLimiter \<Rightarrow> int \<Rightarrow> py_error + (int \<times> RateLimiter)" where
  "wait self now = wait_in module_globals self now"

section \<open>Batch scan: \<^verbatim>\<open>port_scan\<close> and \<^verbatim>\<open>_scan_single_target\<close>\<close>

text \<open>
  What lies outside the module is a parameter of the model: the global names of the module,
  the external tool (for an argument list, the time the process takes and how it ends) and
  \<^verbatim>\<open>ET.fromstring\<close>. A process either fails to start with an exception, or exits with a
  return code, its output and its error output, each decoded or failing to decode.
\<close>

datatype proc_outcome =
    LaunchRaises py_error
  | Exited int "py_error + string" "py_error + string"

record platform =
  global_names :: "string list"
  run_tool :: "string list \<Rightarrow> int \<times> proc_outcome"
  et_fromstring :: "string \<Rightarrow> xml_parse"

text \<open>
  \<^verbatim>\<open>_scan_single_target\<close>, started when the clock reads \<open>clock\<close>: the result and the clock
  at its end. Every exception of the body is caught and becomes an error result.
\<close>

definition failed_scan :: "ScanTarget \<Rightarrow> int \<Rightarrow> int \<Rightarrow> error_text \<Rightarrow> ScanResult" where
  "failed_scan tgt started ended msg =
     \<lparr> res_target = target tgt, res_scan_type = PORT_SCAN, status = ''error'',
       start_time = started, end_time = Some ended, results = NoResults,
       raw_output = [], errors = [msg] \<rparr>"

definition scan_single_target ::
  "platform \<Rightarrow> ScanTarget \<Rightarrow> string \<Rightarrow> ScanIntensity \<Rightarrow> int \<Rightarrow> ScanResult \<times> int" where
  "scan_single_target P tgt scan_type intensity clock =
    (let started = clock;
         nmap_command = build_nmap_command tgt scan_type intensity;
         (elapsed, outcome) = run_tool P nmap_command;
         ended = clock + elapsed
     in case outcome of
          LaunchRaises e \<Rightarrow> (failed_scan tgt started ended (StrOf e), ended)
        | Exited returncode out err \<Rightarrow>
            if returncode \<noteq> 0 then
              (case err of
                 Inl e \<Rightarrow> (failed_scan tgt started ended (StrOf e), ended)
               | Inr stderr \<Rightarrow> (failed_scan tgt started ended (Text (strip stderr)), ended))
            else
              (case out of
                 Inl e \<Rightarrow> (failed_scan tgt started ended (StrOf e), ended)
               | Inr stdout \<Rightarrow>
                   (case parse_port_scan_results (et_fromstring P) stdout of
                      Inl e \<Rightarrow> (failed_scan tgt started ended (StrOf e), ended)
                    | Inr parsed_results \<Rightarrow>
                        (\<lparr> res_target = target tgt, res_scan_type = PORT_SCAN, status = ''completed'',
                           start_time = started, end_time = Some ended, results = Findings parsed_results,
                           raw_output = stdout, errors = [] \<rparr>, ended))))"

text \<open>
  Other tasks run only while the coroutine is suspended. The calls they make to the scan
  control operations are given as a schedule: its head is the list of calls made during the
  next suspension, and after the last entry no other task calls anything.
\<close>

datatype control = PauseCall string | ResumeCall string | CancelCall string

fun control_call :: "control \<Rightarrow> NetworkScanner \<Rightarrow> NetworkScanner" where
  "control_call (PauseCall scan_id) self = snd (pause_scan self scan_id)"
| "control_call (ResumeCall scan_id) self = snd (resume_scan self scan_id)"
| "control_call (CancelCall scan_id) self = snd (cancel_scan self scan_id)"

type_synonym world = "NetworkScanner \<times> int \<times> control list list"

text \<open>One suspension that lasts \<open>elapsed\<close>: the clock advances and the calls of the head happen.\<close>

fun suspend :: "int \<Rightarrow> world \<Rightarrow> world" where
  "suspend elapsed (self, clock, []) = (self, clock + elapsed, [])"
| "suspend elapsed (self, clock, calls # sched) = (fold control_call calls self, clock + elapsed, sched)"

text \<open>How a coroutine ends: it returns, it raises, or it never ends.\<close>

datatype 'a outcome = Returns 'a world | Raises py_error world | Forever

text \<open>
  Lines 236 and 237, the pause loop: each round sleeps one second. When the entry is paused
  and the schedule is exhausted, no task is left to resume it and the loop never ends.
\<close>

fun pause_loop :: "string \<Rightarrow> NetworkScanner \<Rightarrow> int \<Rightarrow> control list list \<Rightarrow> unit outcome" where
  "pause_loop scan_id self clock sched =
    (case active_scans self scan_id of
       None \<Rightarrow> Raises KeyError (self, clock, sched)
     | Some h \<Rightarrow>
         if paused h then
           (case sched of
              [] \<Rightarrow> Forever
            | calls # rest \<Rightarrow> pause_loop scan_id (fold control_call calls self) (clock + second) rest)
         else Returns () (self, clock, sched))"

text \<open>
  Lines 239 to 243 for one target: the rate limiter, then the scan. A sleep of the limiter
  and the run of the tool are one suspension each.
\<close>

definition limit_and_scan ::
  "platform \<Rightarrow> ScanTarget \<Rightarrow> string \<Rightarrow> ScanIntensity \<Rightarrow> world \<Rightarrow> ScanResult outcome" where
  "limit_and_scan P tgt scan_type intensity w =
    (case w of (self, clock, sched) \<Rightarrow>
      (case wait_in (global_names P) (rate_limiter self) clock of
         Inl e \<Rightarrow> Raises e w
       | Inr (slept, limiter) \<Rightarrow>
           (let w1 = (self\<lparr> rate_limiter := limiter \<rparr>, clock, sched);
                w2 = (if slept > 0 then suspend slept w1 else w1);
                (scan_result, ended) = scan_single_target P tgt scan_type intensity (fst (snd w2))
            in Returns scan_result (suspend (ended - fst (snd w2)) w2))))"

text \<open>
  Lines 225 to 243, one round of the loop for a target, with \<^verbatim>\<open>progress_callback\<close> and
  \<^verbatim>\<open>user_preferences\<close> left at \<^verbatim>\<open>None\<close>: \<open>Returns None\<close> is the \<^verbatim>\<open>break\<close>,
  \<open>Returns (Some r)\<close> the result appended.
\<close>

definition port_scan_round ::
  "platform \<Rightarrow> string \<Rightarrow> ScanTarget \<Rightarrow> string \<Rightarrow> ScanIntensity \<Rightarrow> world \<Rightarrow> ScanResult option outcome" where
  "port_scan_round P scan_id tgt scan_type intensity w =
    (case w of (self, clock, sched) \<Rightarrow>
      (case active_scans self scan_id of
         Some h \<Rightarrow>
           if cancelled h then Returns None w
           else
             (case pause_loop scan_id self clock sched of
                Forever \<Rightarrow> Forever
              | Raises e w' \<Rightarrow> Raises e w'
              | Returns _ w' \<Rightarrow>
                  (case limit_and_scan P tgt scan_type intensity w' of
                     Forever \<Rightarrow> Forever
                   | Raises e w'' \<Rightarrow> Raises e w''
                   | Returns r w'' \<Rightarrow> Returns (Some r) w''))
       | None \<Rightarrow>
           (case limit_and_scan P tgt scan_type intensity w of
              Forever \<Rightarrow> Forever
            | Raises e w'' \<Rightarrow> Raises e w''
            | Returns r w'' \<Rightarrow> Returns (Some r) w'')))"

fun port_scan_loop ::
  "platform \<Rightarrow> string \<Rightarrow> ScanTarget list \<Rightarrow> string \<Rightarrow> ScanIntensity \<Rightarrow> ScanResult list \<Rightarrow> world
     \<Rightarrow> ScanResult list outcome" where
  "port_scan_loop P scan_id [] scan_type intensity scanned w = Returns scanned w"
| "port_scan_loop P scan_id (tgt # targets) scan_type intensity scanned w =
    (case port_scan_round P scan_id tgt scan_type intensity w of
       Forever \<Rightarrow> Forever
     | Raises e w' \<Rightarrow> Raises e w'
     | Returns None w' \<Rightarrow> Returns scanned w'
     | Returns (Some r) w' \<Rightarrow> port_scan_loop P scan_id targets scan_type intensity (scanned @ [r]) w')"

text \<open>
  \<^verbatim>\<open>port_scan\<close>. The scan id of line 219 is made from the text \<open>now_iso\<close> of
  \<^verbatim>\<open>datetime.now().isoformat()\<close>; nothing in \<^verbatim>\<open>port_scan\<close> enters it into
  \<^verbatim>\<open>active_scans\<close>.
\<close>

definition port_scan ::
  "platform \<Rightarrow> string \<Rightarrow> ScanTarget list \<Rightarrow> string \<Rightarrow> ScanIntensity \<Rightarrow> world \<Rightarrow> ScanResult list outcome" where
  "port_scan P now_iso targets scan_type intensity w =
    (let scan_id = ''port_scan_'' @ now_iso in
     port_scan_loop P scan_id targets scan_type intensity [] w)"

section \<open>Sample inputs\<close>

text \<open>
  A report whose root element has no child element, only text, and the same report cut off
  before the closing tag.
\<close>

definition report_without_hosts :: string where
  "report_without_hosts = ''<nmaprun>'' @ [CHR 0x0A] @ ''22/tcp open ssh'' @ [CHR 0x0A] @ ''</nmaprun>''"

definition truncated_report :: string where
  "truncated_report = ''<nmaprun>'' @ [CHR 0x0A] @ ''22/tcp open ssh''"

text \<open>
  What \<^verbatim>\<open>ET.fromstring\<close> does on these two documents: the complete one parses to its root,
  the truncated one (like every other string here) raises \<^verbatim>\<open>ET.ParseError\<close>.
\<close>

definition sample_fromstring :: "string \<Rightarrow> xml_parse" where
  "sample_fromstring s = (if s = report_without_hosts then Parsed (Element ''nmaprun'' [] []) else ParseError)"

text \<open>The keys, and the service values, of the port entries a parser returned.\<close>

definition entry_keys_of :: "py_error + findings \<Rightarrow> py_error + string list list" where
  "entry_keys_of outcome =
     (case outcome of Inl e \<Rightarrow> Inl e | Inr f \<Rightarrow> Inr (map port_info_keys (res_ports f)))"

definition entry_services_of :: "py_error + findings \<Rightarrow> py_error + string option list" where
  "entry_services_of outcome =
     (case outcome of Inl e \<Rightarrow> Inl e | Inr f \<Rightarrow> Inr (map pi_service (res_ports f)))"

text \<open>
  The document of a host with port 22 (service ssh) and port 80 (no service element), and
  what \<^verbatim>\<open>ET.fromstring\<close> does on it, on the report without hosts, and on text that is
  no document.
\<close>

definition quoted :: "string \<Rightarrow> string" where
  "quoted s = CHR 0x22 # s @ [CHR 0x22]"

definition host_report_text :: string where
  "host_report_text =
     ''<nmaprun><host><address addr='' @ quoted ''10.0.0.5'' @ '' addrtype='' @ quoted ''ipv4'' @ ''/><ports>''
     @ ''<port protocol='' @ quoted ''tcp'' @ '' portid='' @ quoted ''22'' @ ''>''
     @ ''<state state='' @ quoted ''open'' @ ''/><service name='' @ quoted ''ssh'' @ ''/></port>''
     @ ''<port protocol='' @ quoted ''tcp'' @ '' portid='' @ quoted ''80'' @ ''>''
     @ ''<state state='' @ quoted ''open'' @ ''/></port>''
     @ ''</ports></host></nmaprun>''"

definition report_fromstring :: "string \<Rightarrow> xml_parse" where
  "report_fromstring s =
     (if s = host_report_text
      then Parsed (host_report ''10.0.0.5'' [(22, ''tcp'', ''open'', Some ''ssh''), (80, ''tcp'', ''open'', None)])
      else if s = report_without_hosts then Parsed (Element ''nmaprun'' [] [])
      else ParseError)"

text \<open>A tool that takes one second for every command and prints the complete report.\<close>

definition sample_tool :: "string list \<Rightarrow> int \<times> proc_outcome" where
  "sample_tool command = (second, Exited 0 (Inr report_without_hosts) (Inr []))"

text \<open>The module as it is, and the module with \<^verbatim>\<open>timedelta\<close> imported as well.\<close>

definition module_platform :: platform where
  "module_platform = \<lparr> global_names = module_globals, run_tool = sample_tool, et_fromstring = sample_fromstring \<rparr>"

definition module_with_timedelta :: platform where
  "module_with_timedelta =
     \<lparr> global_names = ''timedelta'' # module_globals, run_tool = sample_tool, et_fromstring = sample_fromstring \<rparr>"

text \<open>The scanner as \<^verbatim>\<open>__init__\<close> leaves it, with \<^verbatim>\<open>SCAN_RATE_LIMIT = 100\<close>.\<close>

definition new_scanner :: NetworkScanner where
  "new_scanner =
     \<lparr> active_scans = Map.empty, scan_history = [],
       rate_limiter = \<lparr> requests_per_minute = 100, request_times = [] \<rparr> \<rparr>"

definition ip_target :: "string \<Rightarrow> ScanTarget" where
  "ip_target address =
     \<lparr> target = address, target_type = ''ip'', ports = None, exclude_ports = None, description = [] \<rparr>"

definition five_targets :: "ScanTarget list" where
  "five_targets = map ip_target [''10.0.0.1'', ''10.0.0.2'', ''10.0.0.3'', ''10.0.0.4'', ''10.0.0.5'']"

text \<open>
  No call during the scan of the first target; during the scan of the second target another
  task calls \<^verbatim>\<open>cancel_scan\<close> with the id of the batch.
\<close>

definition cancel_during_second :: "string \<Rightarrow> control list list" where
  "cancel_during_second now_iso = [[], [CancelCall (''port_scan_'' @ now_iso)]]"

section \<open>Properties of the risk engine\<close>

lemma raw_risk_score_eq:
  "raw_risk_score open_ports services =
     int (length (filter (\<lambda>p. op_port p \<in> set high_risk_ports) open_ports)) * 20
     + (if length open_ports > 50 then 30 else 0)
     + int (length (filter (\<lambda>s. s \<in> set unencrypted_services) services)) * 15"
  by (simp add: raw_risk_score_def score_and_factors_def Let_def)

lemma raw_risk_score_nonneg: "0 \<le> raw_risk_score open_ports services"
  by (simp add: raw_risk_score_eq)

lemma assess_level:
  "risk_level (assess_scan_risks open_ports services) =
     (if raw_risk_score open_ports services \<ge> 100 then ''critical''
      else if raw_risk_score open_ports services \<ge> 70 then ''high''
      else if raw_risk_score open_ports services \<ge> 40 then ''medium''
      else ''low'')"
  by (simp add: assess_scan_risks_def raw_risk_score_def Let_def split: prod.splits)

lemma assess_score:
  "risk_score (assess_scan_risks open_ports services) = min (raw_risk_score open_ports services) 100"
  by (simp add: assess_scan_risks_def raw_risk_score_def Let_def split: prod.splits)

lemma filter_high_risk_base:
  assumes "mset (map op_port base) = {#445, 3389, 22#}"
  shows "length (filter (\<lambda>p. op_port p \<in> set high_risk_ports) base) = 2 \<and> length base = 3"
proof -
  have "length (filter (\<lambda>p. op_port p \<in> set high_risk_ports) base)
      = length (filter (\<lambda>n. n \<in> set high_risk_ports) (map op_port base))"
    by (simp add: filter_map comp_def)
  also have "\<dots> = size (filter_mset (\<lambda>n. n \<in> set high_risk_ports) (mset (map op_port base)))"
    by (simp only: mset_filter [symmetric] size_mset)
  also have "\<dots> = 2" unfolding assms by (simp add: high_risk_ports_def)
  finally have a: "length (filter (\<lambda>p. op_port p \<in> set high_risk_ports) base) = 2" .
  have "length base = size (mset (map op_port base))" by simp
  also have "\<dots> = 3" unfolding assms by simp
  finally show ?thesis using a by simp
qed

lemma filter_no_high_risk:
  "\<forall>p\<in>set extra. op_port p \<notin> set high_risk_ports \<Longrightarrow>
   filter (\<lambda>p. op_port p \<in> set high_risk_ports) extra = []"
  by (induction extra) auto

text \<open>
  C1 (as amended). Open ports 445, 3389 and 22, in any order, with the single service ftp score
  20 + 20 + 15 = 55, level medium. Extending these findings by 48 open ports, none of them in
  the high-risk port list, adds the flat 30: score 85, level high. For all findings the
  reported score is the raw score cut at 100 and lies in 0..100, and the level is critical
  iff the raw score is at least 100, high for 70..99, medium for 40..69, low below 40.
\<close>

theorem assess_scan_risks_example_and_levels:
  assumes base: "mset (map op_port base) = {#445, 3389, 22#}"
      and extra: "length extra = 48"
      and benign: "\<forall>p\<in>set extra. op_port p \<notin> set high_risk_ports"
  shows "risk_score (assess_scan_risks base [''ftp'']) = 55
       \<and> risk_level (assess_scan_risks base [''ftp'']) = ''medium''
       \<and> raw_risk_score (base @ extra) [''ftp''] = raw_risk_score base [''ftp''] + 30
       \<and> risk_score (assess_scan_risks (base @ extra) [''ftp'']) = 85
       \<and> risk_level (assess_scan_risks (base @ extra) [''ftp'']) = ''high''
       \<and> risk_score (assess_scan_risks open_ports services) = min (raw_risk_score open_ports services) 100
       \<and> 0 \<le> risk_score (assess_scan_risks open_ports services)
       \<and> risk_score (assess_scan_risks open_ports services) \<le> 100
       \<and> (risk_level (assess_scan_risks open_ports services) = ''critical''
            \<longleftrightarrow> 100 \<le> raw_risk_score open_ports services)
       \<and> (risk_level (assess_scan_risks open_ports services) = ''high''
            \<longleftrightarrow> 70 \<le> raw_risk_score open_ports services \<and> raw_risk_score open_ports services \<le> 99)
       \<and> (risk_level (assess_scan_risks open_ports services) = ''medium''
            \<longleftrightarrow> 40 \<le> raw_risk_score open_ports services \<and> raw_risk_score open_ports services \<le> 69)
       \<and> (risk_level (assess_scan_risks open_ports services) = ''low''
            \<longleftrightarrow> raw_risk_score open_ports services < 40)"
proof -
  have r1: "raw_risk_score base [''ftp''] = 55"
    using filter_high_risk_base [OF base]
    by (simp add: raw_risk_score_eq unencrypted_services_def)
  have r2: "raw_risk_score (base @ extra) [''ftp''] = 85"
    using filter_high_risk_base [OF base] filter_no_high_risk [OF benign] extra
    by (simp add: raw_risk_score_eq unencrypted_services_def)
  have nn: "0 \<le> raw_risk_score open_ports services" by (rule raw_risk_score_nonneg)
  show ?thesis
    using r1 r2 nn by (simp add: assess_level assess_score)
qed

text \<open>The example of C1 on concrete findings: three ports, then 48 more on port 8080.\<close>

theorem assess_scan_risks_example_and_levels_witness:
  "mset (map op_port [tcp_port 22, tcp_port 445, tcp_port 3389]) = {#445, 3389, 22#}
   \<and> length (replicate 48 (tcp_port 8080)) = 48
   \<and> risk_score (assess_scan_risks [tcp_port 22, tcp_port 445, tcp_port 3389] [''ftp'']) = 55
   \<and> risk_level (assess_scan_risks [tcp_port 22, tcp_port 445, tcp_port 3389] [''ftp'']) = ''medium''
   \<and> risk_score (assess_scan_risks ([tcp_port 22, tcp_port 445, tcp_port 3389] @ replicate 48 (tcp_port 8080)) [''ftp'']) = 85
   \<and> risk_level (assess_scan_risks ([tcp_port 22, tcp_port 445, tcp_port 3389] @ replicate 48 (tcp_port 8080)) [''ftp'']) = ''high''"
proof -
  have a: "mset (map op_port [tcp_port 22, tcp_port 445, tcp_port 3389]) = {#445, 3389, 22#}"
    by (simp add: tcp_port_def)
  have b: "length (replicate 48 (tcp_port 8080)) = 48" by simp
  have c: "\<forall>p\<in>set (replicate 48 (tcp_port 8080)). op_port p \<notin> set high_risk_ports"
    by (simp add: tcp_port_def high_risk_ports_def)
  show ?thesis using assess_scan_risks_example_and_levels [OF a b c] a b by blast
qed

text \<open>
  C1 as stated fails when the 48 added ports are arbitrary: with one of them port 21 (FTP
  control, a high-risk port) the raw score is 105 and the level is critical, not high.
\<close>

theorem assess_scan_risks_extension_critical:
  "length ([tcp_port 445, tcp_port 3389, tcp_port 22] @ tcp_port 21 # replicate 47 (tcp_port 8080)) = 51
   \<and> risk_level (assess_scan_risks
        ([tcp_port 445, tcp_port 3389, tcp_port 22] @ tcp_port 21 # replicate 47 (tcp_port 8080)) [''ftp''])
      = ''critical''
   \<and> risk_level (assess_scan_risks
        ([tcp_port 445, tcp_port 3389, tcp_port 22] @ tcp_port 21 # replicate 47 (tcp_port 8080)) [''ftp''])
      \<noteq> ''high''"
  by (simp add: assess_level raw_risk_score_eq tcp_port_def high_risk_ports_def unencrypted_services_def)

text \<open>
  Repeated names do reach the risk engine: two scanned hosts that both run FTP on port 2121
  put \<^verbatim>\<open>ftp\<close> into the service list twice, and the assessment of the batch scores 30.
\<close>

lemma two_ftp_hosts_counted_twice:
  "snd (collect_findings [ftp_host_result ''10.0.0.1'', ftp_host_result ''10.0.0.2'']) = [''ftp'', ''ftp'']
   \<and> risk_score (risk_assessment_of [ftp_host_result ''10.0.0.1'', ftp_host_result ''10.0.0.2'']) = 30"
  by code_simp

lemma count_in_names:
  "distinct names \<Longrightarrow>
   int (length (filter (\<lambda>s. s \<in> set names) services)) = (\<Sum>name\<leftarrow>names. int (count_list services name))"
proof (induction services)
  case Nil
  then show ?case by (induction names) auto
next
  case (Cons s services)
  have "(\<Sum>name\<leftarrow>names. int (count_list (s # services) name))
      = (\<Sum>name\<leftarrow>names. int (count_list services name)) + (if s \<in> set names then 1 else 0)"
    using Cons.prems
  proof (induction names)
    case Nil
    then show ?case by simp
  next
    case (Cons n names)
    then show ?case by auto
  qed
  with Cons show ?case by simp
qed

text \<open>
  C4 (as amended). The unencrypted-service term of the score is 15 for every occurrence in the
  service list of a name among ftp, telnet, http and smtp: a name that occurs k times
  contributes 15 k.
\<close>

theorem unencrypted_contribution_per_occurrence:
  "raw_risk_score open_ports services
     = raw_risk_score open_ports [] + 15 * (\<Sum>name\<leftarrow>unencrypted_services. int (count_list services name))"
proof -
  have d: "distinct unencrypted_services" by (simp add: unencrypted_services_def)
  show ?thesis by (simp add: raw_risk_score_eq count_in_names [OF d])
qed

text \<open>
  C4 as stated fails on a repeated name: ftp listed twice scores 30, where counting each
  distinct name once gives 15.
\<close>

theorem unencrypted_contribution_repeated_ftp:
  "raw_risk_score [] [''ftp'', ''ftp''] = 30 \<and> spec_distinct_unencrypted_contribution [''ftp'', ''ftp''] = 15"
  by (simp add: raw_risk_score_eq spec_distinct_unencrypted_contribution_def unencrypted_services_def)

section \<open>Properties of the command builder\<close>

lemma intensity_flags:
  "dict_get intensity_map i (dict_get intensity_map NORMAL []) =
     (case i of LIGHT \<Rightarrow> [''-T1'', ''--max-retries'', ''1'']
      | NORMAL \<Rightarrow> [''-T3'', ''--max-retries'', ''2'']
      | AGGRESSIVE \<Rightarrow> [''-T4'', ''--max-retries'', ''3'']
      | INSANE \<Rightarrow> [''-T5'', ''--max-retries'', ''5''])"
  by (cases i) (simp_all add: dict_get_def intensity_map_def)

lemma build_nmap_command_eq:
  "build_nmap_command tgt scan_type intensity =
     ''nmap'' # dict_get scan_type_map scan_type [''-sT'']
       @ dict_get intensity_map intensity (dict_get intensity_map NORMAL [])
       @ port_args tgt @ [''-oX'', ''-'', target tgt]"
  by (simp add: build_nmap_command_def Let_def)

lemma of_char_digit_char: "d < 10 \<Longrightarrow> (of_char (digit_char d) :: nat) = 48 + d"
  by (simp add: digit_char_def)

lemma is_digit_digit_char: "d < 10 \<Longrightarrow> is_digit (digit_char d)"
  by (simp add: is_digit_def of_char_digit_char)

lemma digit_val_digit_char: "d < 10 \<Longrightarrow> digit_val (digit_char d) = d"
  by (simp add: digit_val_def of_char_digit_char)

lemma parse_digits_all_digits:
  "list_all is_digit ds \<Longrightarrow> ds \<noteq> [] \<Longrightarrow>
   parse_digits b acc ds = Some (foldl (\<lambda>a c. a * 10 + digit_val c) acc ds)"
proof (induction ds arbitrary: b acc)
  case Nil
  then show ?case by simp
next
  case (Cons d ds)
  show ?case
  proof (cases "ds = []")
    case True
    with Cons.prems show ?thesis by simp
  next
    case False
    from Cons.prems have "list_all is_digit ds" and d: "is_digit d" by simp_all
    from Cons.IH [OF this(1) False, of True "acc * 10 + digit_val d"] d
    show ?thesis by (simp del: mult.commute)
  qed
qed

lemma str_nat_digits:
  "list_all is_digit (str_nat n) \<and> str_nat n \<noteq> []
   \<and> foldl (\<lambda>a c. a * 10 + digit_val c) 0 (str_nat n) = n"
proof (induction n rule: str_nat.induct)
  case (1 n)
  show ?case
  proof (cases "n < 10")
    case True
    then have "str_nat n = [digit_char n]" by (subst str_nat.simps) simp
    with True show ?thesis
      by (simp add: is_digit_digit_char digit_val_digit_char)
  next
    case False
    with 1 have ih: "list_all is_digit (str_nat (n div 10))" "str_nat (n div 10) \<noteq> []"
      "foldl (\<lambda>a c. a * 10 + digit_val c) 0 (str_nat (n div 10)) = n div 10" by simp_all
    have eq: "str_nat n = str_nat (n div 10) @ [digit_char (n mod 10)]"
      using False by (subst str_nat.simps) simp
    show ?thesis
      using ih by (simp add: eq is_digit_digit_char digit_val_digit_char)
  qed
qed

lemma parse_digits_str_nat: "parse_digits False 0 (str_nat n) = Some n"
  using str_nat_digits [of n] by (simp add: parse_digits_all_digits)

lemma is_digit_not_space: "is_digit c \<Longrightarrow> \<not> is_space c"
  by (auto simp: is_digit_def is_space_def)

lemma is_digit_plain: "is_digit c \<Longrightarrow> c \<noteq> CHR '','' \<and> c \<noteq> CHR ''-'' \<and> c \<noteq> CHR ''+''"
  by (auto simp: is_digit_def)

lemma strip_chars_id:
  assumes "s \<noteq> []" and "\<not> drops (hd s)" and "\<not> drops (last s)"
  shows "strip_chars drops s = s"
proof -
  from assms have 1: "dropWhile drops s = s" by (cases s) auto
  from assms have "rev s \<noteq> []" "\<not> drops (hd (rev s))" by (simp_all add: hd_rev)
  then have 2: "dropWhile drops (rev s) = rev s" by (cases "rev s") auto
  show ?thesis by (simp add: strip_chars_def 1 2)
qed

lemma str_nat_ends:
  "str_nat n \<noteq> [] \<and> is_digit (hd (str_nat n)) \<and> is_digit (last (str_nat n))"
proof -
  from str_nat_digits [of n] have a: "list_all is_digit (str_nat n)" and b: "str_nat n \<noteq> []" by simp_all
  from a b have "is_digit (hd (str_nat n))" by (cases "str_nat n") auto
  moreover from a b have "is_digit (last (str_nat n))" by (simp add: list_all_iff)
  ultimately show ?thesis using b by simp
qed

lemma py_int_str_int: "py_int (str_int i) = Inr i"
proof (cases "i < 0")
  case True
  let ?d = "str_nat (nat (- i))"
  from str_nat_ends [of "nat (- i)"] have e: "?d \<noteq> []" "is_digit (last ?d)" by simp_all
  have "strip (CHR ''-'' # ?d) = CHR ''-'' # ?d"
    unfolding strip_def using e
    by (intro strip_chars_id) (auto simp: is_space_def dest: is_digit_not_space)
  with True show ?thesis
    by (simp add: py_int_def str_int_def parse_digits_str_nat)
next
  case False
  let ?d = "str_nat (nat i)"
  from str_nat_ends [of "nat i"] have e: "?d \<noteq> []" "is_digit (hd ?d)" "is_digit (last ?d)" by simp_all
  have s: "strip ?d = ?d"
    unfolding strip_def using e by (intro strip_chars_id) (auto dest: is_digit_not_space)
  from e obtain c cs where d: "?d = c # cs" and c: "is_digit c" by (cases ?d) auto
  from parse_digits_str_nat [of "nat i"] d have "parse_digits False 0 (c # cs) = Some (nat i)" by simp
  with False s d is_digit_plain [OF c] show ?thesis
    by (simp add: py_int_def str_int_def)
qed

lemma str_int_no_comma: "CHR '','' \<notin> set (str_int i)"
proof -
  have "CHR '','' \<notin> set (str_nat n)" for n
    using str_nat_digits [of n] is_digit_plain by (auto simp: list_all_iff)
  then show ?thesis by (simp add: str_int_def)
qed

lemma split_on_from_piece:
  "sep \<notin> set x \<Longrightarrow> split_on_from sep cur (x @ rest) = split_on_from sep (cur @ x) rest"
  by (induction x arbitrary: cur) auto

lemma split_on_join:
  assumes "xs \<noteq> []" and "\<forall>x\<in>set xs. sep \<notin> set x"
  shows "split_on_from sep cur (join [sep] xs) = (cur @ hd xs) # tl xs"
  using assms
proof (induction "[sep]" xs arbitrary: cur rule: join.induct)
  case 1
  then show ?case by simp
next
  case (2 x)
  then show ?case using split_on_from_piece [of sep x cur "[]"] by simp
next
  case (3 x y ys)
  then have "split_on_from sep [] (join [sep] (y # ys)) = y # ys" by simp
  with 3 show ?case
    using split_on_from_piece [of sep x cur "sep # join [sep] (y # ys)"] by simp
qed

lemma ports_str_roundtrip:
  assumes "ps \<noteq> []"
  shows "map py_int (split_on CHR '','' (join '','' (map str_int ps))) = map Inr ps"
proof -
  have "split_on CHR '','' (join '','' (map str_int ps)) = map str_int ps"
    using assms split_on_join [of "map str_int ps" "CHR '',''" "[]"]
    by (cases ps) (simp_all add: split_on_def str_int_no_comma)
  then show ?thesis by (simp add: py_int_str_int)
qed

text \<open>
  C5 (as amended). For every target whose \<^verbatim>\<open>ports\<close> list is non-empty, the command has
  the argument \<^verbatim>\<open>-p\<close> followed by the ports joined by commas in the order of the list,
  duplicates kept; nothing sorts them. Splitting that value at the commas and reading each
  piece as an integer gives the list back.
\<close>

theorem build_nmap_command_ports_in_list_order:
  assumes "ports tgt = Some ps" and "ps \<noteq> []"
  shows "build_nmap_command tgt scan_type intensity =
     ''nmap'' # dict_get scan_type_map scan_type [''-sT'']
       @ dict_get intensity_map intensity (dict_get intensity_map NORMAL [])
       @ [''-p'', join '','' (map str_int ps)] @ [''-oX'', ''-'', target tgt]
   \<and> map py_int (split_on CHR '','' (join '','' (map str_int ps))) = map Inr ps"
  using assms ports_str_roundtrip [of ps] by (simp add: build_nmap_command_eq port_args_def)

text \<open>C5 on the ports 443, 80, 80 of a UDP scan: order and the repeated 80 are kept.\<close>

theorem build_nmap_command_ports_in_list_order_witness:
  "build_nmap_command \<lparr>target = ''10.0.0.5'', target_type = ''ip'', ports = Some [443, 80, 80],
      exclude_ports = None, description = []\<rparr> ''udp'' LIGHT
    = [''nmap'', ''-sU'', ''-T1'', ''--max-retries'', ''1'', ''-p'', ''443,80,80'', ''-oX'', ''-'', ''10.0.0.5'']
   \<and> map py_int (split_on CHR '','' ''443,80,80'') = [Inr 443, Inr 80, Inr 80]"
proof -
  let ?t = "\<lparr>target = ''10.0.0.5'', target_type = ''ip'', ports = Some [443, 80, 80],
      exclude_ports = None, description = []\<rparr>"
  have p: "ports ?t = Some [443, 80, 80]" by simp
  have n: "[443, 80, 80] \<noteq> ([] :: int list)" by simp
  have j: "join '','' (map str_int [443, 80, 80]) = ''443,80,80''" by code_simp
  note both = build_nmap_command_ports_in_list_order [OF p n, of "''udp''" LIGHT]
  from both have "build_nmap_command ?t ''udp'' LIGHT =
      ''nmap'' # dict_get scan_type_map ''udp'' [''-sT'']
        @ dict_get intensity_map LIGHT (dict_get intensity_map NORMAL [])
        @ [''-p'', join '','' (map str_int [443, 80, 80])] @ [''-oX'', ''-'', target ?t]"
    by (rule conjunct1)
  then have 1: "build_nmap_command ?t ''udp'' LIGHT
      = [''nmap'', ''-sU'', ''-T1'', ''--max-retries'', ''1'', ''-p'', ''443,80,80'', ''-oX'', ''-'', ''10.0.0.5'']"
    unfolding j by (simp add: dict_get_def scan_type_map_def intensity_map_def)
  from both have "map py_int (split_on CHR '','' (join '','' (map str_int [443, 80, 80])))
      = map Inr [443, 80, 80]"
    by (rule conjunct2)
  then have 2: "map py_int (split_on CHR '','' ''443,80,80'') = [Inr 443, Inr 80, Inr 80]"
    unfolding j by simp
  from 1 2 show ?thesis by (rule conjI)
qed

text \<open>
  C5 as stated fails on an unsorted list: for ports 443, 80 the argument is \<^verbatim>\<open>443,80\<close>,
  where the ascending join is \<^verbatim>\<open>80,443\<close>.
\<close>

theorem build_nmap_command_ports_not_sorted:
  "build_nmap_command \<lparr>target = ''10.0.0.5'', target_type = ''ip'', ports = Some [443, 80],
      exclude_ports = None, description = []\<rparr> ''tcp_connect'' NORMAL
    = [''nmap'', ''-sT'', ''-T3'', ''--max-retries'', ''2'', ''-p'', ''443,80'', ''-oX'', ''-'', ''10.0.0.5'']
   \<and> spec_ascending_ports_str [443, 80] = ''80,443''"
  by code_simp

lemma list_extend_new:
  "list_extend (length objs) xs (s\<lparr> list_objects := objs @ [cur] \<rparr>)
     = s\<lparr> list_objects := objs @ [cur @ xs] \<rparr>"
  by (simp add: list_extend_def)

lemma method_run:
  "build_nmap_command_method tgt scan_type intensity s
     = (length (list_objects s),
        s\<lparr> list_objects := list_objects s @ [build_nmap_command tgt scan_type intensity] \<rparr>)"
  by (simp add: build_nmap_command_method_def new_list_def list_append_def list_extend_new
        build_nmap_command_def port_args_def Let_def split: option.splits)

text \<open>
  C8. Run on any two states of the program with the same target, scan type and intensity,
  the method returns lists with the same elements, namely those of \<open>build_nmap_command\<close>.
  A call leaves the scanner as it was, changes no list that existed before and creates one
  list, the one it returns; a second call returns the same elements again and leaves the
  list of the first call as it was.
\<close>

theorem build_nmap_command_method_pure:
  "returned_list (build_nmap_command_method tgt scan_type intensity s)
     = returned_list (build_nmap_command_method tgt scan_type intensity s')
 \<and> returned_list (build_nmap_command_method tgt scan_type intensity s)
     = build_nmap_command tgt scan_type intensity
 \<and> scanner (snd (build_nmap_command_method tgt scan_type intensity s)) = scanner s
 \<and> fst (build_nmap_command_method tgt scan_type intensity s) = length (list_objects s)
 \<and> list_objects (snd (build_nmap_command_method tgt scan_type intensity s))
     = list_objects s @ [build_nmap_command tgt scan_type intensity]
 \<and> returned_list (build_nmap_command_method tgt scan_type intensity
        (snd (build_nmap_command_method tgt scan_type intensity s)))
     = returned_list (build_nmap_command_method tgt scan_type intensity s)
 \<and> list_objects (snd (build_nmap_command_method tgt scan_type intensity
        (snd (build_nmap_command_method tgt scan_type intensity s))))
       ! fst (build_nmap_command_method tgt scan_type intensity s)
     = returned_list (build_nmap_command_method tgt scan_type intensity s)"
  by (simp add: method_run returned_list_def nth_append)

lemma scan_type_fallback:
  "scan_type \<notin> {''tcp_connect'', ''tcp_syn'', ''udp'', ''stealth'', ''version'', ''os'', ''comprehensive''}
   \<Longrightarrow> dict_get scan_type_map scan_type [''-sT''] = [''-sT'']"
  by (simp add: dict_get_def scan_type_map_def)

text \<open>
  C10. A scan type that is none of the seven keys gets the TCP-connect flag \<^verbatim>\<open>-sT\<close>, and
  for all inputs the command ends with \<^verbatim>\<open>-oX\<close>, \<^verbatim>\<open>-\<close> and the target address.
\<close>

theorem build_nmap_command_unknown_scan_type:
  assumes "scan_type \<notin> {''tcp_connect'', ''tcp_syn'', ''udp'', ''stealth'', ''version'', ''os'', ''comprehensive''}"
  shows "build_nmap_command tgt scan_type intensity =
           [''nmap'', ''-sT''] @ dict_get intensity_map intensity (dict_get intensity_map NORMAL [])
             @ port_args tgt @ [''-oX'', ''-'', target tgt]
       \<and> drop (length (build_nmap_command tgt' scan_type' intensity') - 3)
              (build_nmap_command tgt' scan_type' intensity') = [''-oX'', ''-'', target tgt']"
  using scan_type_fallback [OF assms] by (simp add: build_nmap_command_eq)

text \<open>C10 on the scan type \<^verbatim>\<open>syn\<close>, which the docstring of \<^verbatim>\<open>port_scan\<close> lists but the table lacks.\<close>

theorem build_nmap_command_unknown_scan_type_witness:
  "build_nmap_command \<lparr>target = ''10.0.0.5'', target_type = ''ip'', ports = None,
      exclude_ports = None, description = []\<rparr> ''syn'' AGGRESSIVE
    = [''nmap'', ''-sT'', ''-T4'', ''--max-retries'', ''3'', ''-oX'', ''-'', ''10.0.0.5'']"
proof -
  have "''syn'' \<notin> {''tcp_connect'', ''tcp_syn'', ''udp'', ''stealth'', ''version'', ''os'', ''comprehensive''}"
    by simp
  from build_nmap_command_unknown_scan_type [OF this, of _ AGGRESSIVE] show ?thesis
    by (simp add: intensity_flags port_args_def)
qed

section \<open>Properties of scan control\<close>

text \<open>
  C9. For a scan id that is not in the registry each of the three operations returns false
  and leaves the scanner unchanged. For an id that is in the registry each returns true and
  changes only its own flag of that entry: \<^verbatim>\<open>pause_scan\<close> sets \<^verbatim>\<open>paused\<close>,
  \<^verbatim>\<open>resume_scan\<close> clears it, \<^verbatim>\<open>cancel_scan\<close> sets \<^verbatim>\<open>cancelled\<close>. Pausing twice is the
  same as pausing once: the entry stays paused.
\<close>

theorem scan_control_lookup_and_set:
  "(active_scans self scan_id = None \<longrightarrow>
       pause_scan self scan_id = (False, self)
     \<and> resume_scan self scan_id = (False, self)
     \<and> cancel_scan self scan_id = (False, self))
 \<and> (active_scans self scan_id = Some h \<longrightarrow>
       pause_scan self scan_id
         = (True, self\<lparr>active_scans := (active_scans self)(scan_id \<mapsto> h\<lparr>paused := True\<rparr>)\<rparr>)
     \<and> resume_scan self scan_id
         = (True, self\<lparr>active_scans := (active_scans self)(scan_id \<mapsto> h\<lparr>paused := False\<rparr>)\<rparr>)
     \<and> cancel_scan self scan_id
         = (True, self\<lparr>active_scans := (active_scans self)(scan_id \<mapsto> h\<lparr>cancelled := True\<rparr>)\<rparr>)
     \<and> pause_scan (snd (pause_scan self scan_id)) scan_id = pause_scan self scan_id
     \<and> map_option paused (active_scans (snd (pause_scan (snd (pause_scan self scan_id)) scan_id)) scan_id)
         = Some True)
 \<and> (other \<noteq> scan_id \<longrightarrow>
       active_scans (snd (pause_scan self scan_id)) other = active_scans self other
     \<and> active_scans (snd (resume_scan self scan_id)) other = active_scans self other
     \<and> active_scans (snd (cancel_scan self scan_id)) other = active_scans self other)
 \<and> dom (active_scans (snd (pause_scan self scan_id))) = dom (active_scans self)
 \<and> dom (active_scans (snd (resume_scan self scan_id))) = dom (active_scans self)
 \<and> dom (active_scans (snd (cancel_scan self scan_id))) = dom (active_scans self)
 \<and> map_option cancelled (active_scans (snd (pause_scan self scan_id)) scan_id)
       = map_option cancelled (active_scans self scan_id)
 \<and> map_option cancelled (active_scans (snd (resume_scan self scan_id)) scan_id)
       = map_option cancelled (active_scans self scan_id)
 \<and> map_option paused (active_scans (snd (cancel_scan self scan_id)) scan_id)
       = map_option paused (active_scans self scan_id)
 \<and> map_option h_result (active_scans (snd (pause_scan self scan_id)) scan_id)
       = map_option h_result (active_scans self scan_id)
 \<and> map_option h_result (active_scans (snd (resume_scan self scan_id)) scan_id)
       = map_option h_result (active_scans self scan_id)
 \<and> map_option h_result (active_scans (snd (cancel_scan self scan_id)) scan_id)
       = map_option h_result (active_scans self scan_id)"
  by (cases "active_scans self scan_id")
     (auto simp: pause_scan_def resume_scan_def cancel_scan_def)

text \<open>
  C9 on a scanner with one ping sweep in flight: an id of a port scan is unknown to it, the
  id of the sweep is paused, paused again, and cancelled.
\<close>

theorem scan_control_lookup_and_set_witness:
  "pause_scan scanner_with_sweep ''port_scan_2024-01-01T00:00:00'' = (False, scanner_with_sweep)
 \<and> cancel_scan scanner_with_sweep ''port_scan_2024-01-01T00:00:00'' = (False, scanner_with_sweep)
 \<and> fst (pause_scan scanner_with_sweep ''ping_sweep_2024-01-01T00:00:00'') = True
 \<and> active_scans (snd (pause_scan scanner_with_sweep ''ping_sweep_2024-01-01T00:00:00''))
       ''ping_sweep_2024-01-01T00:00:00''
     = Some \<lparr> h_result = running_sweep, paused = True, cancelled = False \<rparr>
 \<and> pause_scan (snd (pause_scan scanner_with_sweep ''ping_sweep_2024-01-01T00:00:00''))
       ''ping_sweep_2024-01-01T00:00:00''
     = pause_scan scanner_with_sweep ''ping_sweep_2024-01-01T00:00:00''
 \<and> active_scans (snd (cancel_scan scanner_with_sweep ''ping_sweep_2024-01-01T00:00:00''))
       ''ping_sweep_2024-01-01T00:00:00''
     = Some \<lparr> h_result = running_sweep, paused = False, cancelled = True \<rparr>"
proof -
  have absent: "active_scans scanner_with_sweep ''port_scan_2024-01-01T00:00:00'' = None"
    by (simp add: scanner_with_sweep_def)
  have present: "active_scans scanner_with_sweep ''ping_sweep_2024-01-01T00:00:00''
      = Some \<lparr> h_result = running_sweep, paused = False, cancelled = False \<rparr>"
    by (simp add: scanner_with_sweep_def)
  let ?h = "\<lparr> h_result = running_sweep, paused = False, cancelled = False \<rparr>"
  from scan_control_lookup_and_set [of scanner_with_sweep "''port_scan_2024-01-01T00:00:00''"] absent
  have a: "pause_scan scanner_with_sweep ''port_scan_2024-01-01T00:00:00'' = (False, scanner_with_sweep)
      \<and> cancel_scan scanner_with_sweep ''port_scan_2024-01-01T00:00:00'' = (False, scanner_with_sweep)"
    by blast
  from scan_control_lookup_and_set [of scanner_with_sweep "''ping_sweep_2024-01-01T00:00:00''" ?h] present
  have p: "pause_scan scanner_with_sweep ''ping_sweep_2024-01-01T00:00:00''
        = (True, scanner_with_sweep\<lparr>active_scans := (active_scans scanner_with_sweep)
             (''ping_sweep_2024-01-01T00:00:00'' \<mapsto> ?h\<lparr>paused := True\<rparr>)\<rparr>)
      \<and> cancel_scan scanner_with_sweep ''ping_sweep_2024-01-01T00:00:00''
        = (True, scanner_with_sweep\<lparr>active_scans := (active_scans scanner_with_sweep)
             (''ping_sweep_2024-01-01T00:00:00'' \<mapsto> ?h\<lparr>cancelled := True\<rparr>)\<rparr>)
      \<and> pause_scan (snd (pause_scan scanner_with_sweep ''ping_sweep_2024-01-01T00:00:00''))
            ''ping_sweep_2024-01-01T00:00:00''
        = pause_scan scanner_with_sweep ''ping_sweep_2024-01-01T00:00:00''"
    by blast
  have twice: "pause_scan (snd (pause_scan scanner_with_sweep ''ping_sweep_2024-01-01T00:00:00''))
            ''ping_sweep_2024-01-01T00:00:00''
        = pause_scan scanner_with_sweep ''ping_sweep_2024-01-01T00:00:00''"
    using p by blast
  have paused_now: "fst (pause_scan scanner_with_sweep ''ping_sweep_2024-01-01T00:00:00'') = True
      \<and> active_scans (snd (pause_scan scanner_with_sweep ''ping_sweep_2024-01-01T00:00:00''))
            ''ping_sweep_2024-01-01T00:00:00''
          = Some \<lparr> h_result = running_sweep, paused = True, cancelled = False \<rparr>"
    using p by simp
  have cancelled_now: "active_scans (snd (cancel_scan scanner_with_sweep ''ping_sweep_2024-01-01T00:00:00''))
            ''ping_sweep_2024-01-01T00:00:00''
          = Some \<lparr> h_result = running_sweep, paused = False, cancelled = True \<rparr>"
    using p by simp
  show ?thesis using a twice paused_now cancelled_now by blast
qed

section \<open>Properties of the ping sweep parser\<close>

lemma ping_sweep_line_five_or_fewer:
  assumes "contains ''Nmap scan report for'' line" and "length (split_ws line) \<le> 5"
  shows "ping_sweep_line line hosts = Inl IndexError"
proof (cases "length (split_ws line) = 5")
  case True
  then have "index (split_ws line) 5 = Inl IndexError" "index (split_ws line) 4 = Inr (split_ws line ! 4)"
    by (simp_all add: index_def)
  with True assms(1) show ?thesis by (simp add: ping_sweep_line_def Let_def)
next
  case False
  with assms(2) have "length (split_ws line) < 5" by simp
  then have "index (split_ws line) 4 = Inl IndexError" "\<not> 5 \<le> length (split_ws line)"
    by (simp_all add: index_def)
  with assms(1) show ?thesis by (simp add: ping_sweep_line_def Let_def)
qed

text \<open>
  C6 fails on the code. The line nmap prints for a host without a name,
  \<^verbatim>\<open>Nmap scan report for 192.168.1.1\<close>, has five tokens; the test \<^verbatim>\<open>len(parts) >= 5\<close>
  sends it to the branch that reads \<^verbatim>\<open>parts[5]\<close>, which raises \<^verbatim>\<open>IndexError\<close>. The
  claim promises the entry with the address and no host name.
\<close>

theorem parse_ping_sweep_address_only_raises:
  "parse_ping_sweep_results ''Nmap scan report for 192.168.1.1'' = Inl IndexError"
  by code_simp

section \<open>Properties of the port scan parsers\<close>

subsection \<open>What each path returns has its shape\<close>

lemma for_each_inv:
  assumes step: "\<And>x s s'. I s \<Longrightarrow> body x s = Inr s' \<Longrightarrow> I s'"
  shows "I s \<Longrightarrow> for_each body xs s = Inr s' \<Longrightarrow> I s'"
proof (induction xs arbitrary: s)
  case Nil
  then show ?case by simp
next
  case (Cons x xs)
  from Cons.prems(2) obtain s1 where s1: "body x s = Inr s1" and rest: "for_each body xs s1 = Inr s'"
    by (auto split: sum.splits)
  from step [OF Cons.prems(1) s1] have "I s1" .
  from Cons.IH [OF this rest] show ?case .
qed

lemma fold_inv:
  assumes step: "\<And>x s. I s \<Longrightarrow> I (f x s)"
  shows "I s \<Longrightarrow> I (fold f xs s)"
  by (induction xs arbitrary: s) (auto intro: step)

lemma empty_text_shape: "text_shape empty_findings"
  by (simp add: text_shape_def empty_findings_def)

lemma empty_structured_shape: "structured_shape empty_findings"
  by (simp add: structured_shape_def empty_findings_def)

lemma text_line_shape:
  "text_shape f \<Longrightarrow> port_scan_text_line line f = Inr f' \<Longrightarrow> text_shape f'"
  by (auto simp: port_scan_text_line_def text_shape_def text_port_entry_def text_services_def Let_def
           split: if_splits sum.splits)

lemma parse_port_scan_text_shape: "parse_port_scan_text s = Inr f \<Longrightarrow> text_shape f"
  unfolding parse_port_scan_text_def
  by (rule for_each_inv [where I = text_shape, OF text_line_shape empty_text_shape])

lemma port_info_of_entry: "port_info_of port = Inr p \<Longrightarrow> structured_port_entry p"
  by (auto simp: port_info_of_def structured_port_entry_def Let_def split: option.splits sum.splits)

lemma record_port_shape:
  "structured_shape f \<Longrightarrow> structured_port_entry p \<Longrightarrow> record_port p f = Inr f' \<Longrightarrow> structured_shape f'"
  by (auto simp: record_port_def structured_shape_def structured_services_def Let_def
           split: if_splits option.splits)

lemma port_element_shape:
  "structured_shape f \<Longrightarrow> port_element p f = Inr f' \<Longrightarrow> structured_shape f'"
  by (auto simp: port_element_def split: sum.splits dest: record_port_shape port_info_of_entry)

lemma dict_set_single:
  "map fst d = [] \<or> map fst d = [k] \<Longrightarrow> map fst (dict_set d k v) = [k]"
  by (cases d) auto

lemma address_element_shape: "structured_shape f \<Longrightarrow> structured_shape (address_element a f)"
  by (auto simp: address_element_def structured_shape_def dict_set_single)

lemma host_element_shape:
  assumes "structured_shape f" and "host_element h f = Inr f'"
  shows "structured_shape f'"
proof -
  let ?f1 = "fold address_element (findall h ''address'') f"
  have f1: "structured_shape ?f1"
  proof (rule fold_inv [where I = structured_shape])
    show "structured_shape (address_element x s)" if "structured_shape s" for x s
      using that by (rule address_element_shape)
    show "structured_shape f" by (rule assms(1))
  qed
  have inner: "\<And>x s s'. structured_shape s \<Longrightarrow> for_each port_element (findall x ''port'') s = Inr s'
      \<Longrightarrow> structured_shape s'"
    by (rule for_each_inv [where I = structured_shape and body = port_element, OF port_element_shape])
  from assms(2) have "for_each (\<lambda>ports_el. for_each port_element (findall ports_el ''port''))
      (findall h ''ports'') ?f1 = Inr f'"
    by (simp add: host_element_def Let_def)
  from for_each_inv [where I = structured_shape, OF inner f1 this] show ?thesis .
qed

lemma structured_findings_shape: "structured_findings root = Inr f \<Longrightarrow> structured_shape f"
  unfolding structured_findings_def
  by (rule for_each_inv [where I = structured_shape, OF host_element_shape empty_structured_shape])

subsection \<open>Each path fills in the ports of a report\<close>

lemma str_int_chars: "c \<in> set (str_int i) \<Longrightarrow> is_digit c \<or> c = CHR ''-''"
  using str_nat_digits [of "nat i"] str_nat_digits [of "nat (- i)"]
  by (auto simp: str_int_def list_all_iff split: if_splits)

lemma str_int_nonempty: "str_int i \<noteq> []"
  using str_nat_digits [of "nat i"] by (simp add: str_int_def)

lemma not_space_str_int: "c \<in> set (str_int i) \<Longrightarrow> \<not> is_space c"
  using str_int_chars [of c i] is_digit_not_space [of c] by (auto simp: is_space_def)

lemma contains_prefix: "contains sub (sub @ b)"
proof (cases "sub @ b")
  case Nil
  then show ?thesis by simp
next
  case (Cons x xs)
  have "take (length sub) (sub @ b) = sub" by simp
  then have "take (length sub) (x # xs) = sub" using Cons by simp
  then have "contains sub (x # xs)" by simp
  then show ?thesis using Cons by simp
qed

lemma contains_mid: "contains sub (a @ sub @ b)"
proof (induction a)
  case Nil
  show ?case using contains_prefix by simp
next
  case (Cons x a)
  then show ?case by simp
qed

lemma split_ws_from_token:
  "list_all (\<lambda>c. \<not> is_space c) t \<Longrightarrow> split_ws_from cur (t @ rest) = split_ws_from (cur @ t) rest"
  by (induction t arbitrary: cur) auto

lemma split_ws_three:
  assumes "token a" "token b" "token c"
  shows "split_ws (a @ '' '' @ b @ '' '' @ c) = [a, b, c]"
proof -
  have sp: "is_space CHR '' ''" by (simp add: is_space_def)
  from assms have ne: "a \<noteq> []" "b \<noteq> []" "c \<noteq> []"
    and ns: "list_all (\<lambda>c. \<not> is_space c) a" "list_all (\<lambda>c. \<not> is_space c) b" "list_all (\<lambda>c. \<not> is_space c) c"
    by (simp_all add: token_def)
  have "split_ws_from [] (a @ CHR '' '' # b @ CHR '' '' # c) = a # split_ws_from [] (b @ CHR '' '' # c)"
    using split_ws_from_token [OF ns(1), of "[]" "CHR '' '' # b @ CHR '' '' # c"] ne(1) sp by simp
  also have "split_ws_from [] (b @ CHR '' '' # c) = b # split_ws_from [] (c @ [])"
    using split_ws_from_token [OF ns(2), of "[]" "CHR '' '' # c"] ne(2) sp by simp
  also have "split_ws_from [] (c @ []) = [c]"
    using split_ws_from_token [OF ns(3), of "[]" "[]"] ne(3) by simp
  finally show ?thesis by (simp add: split_ws_def)
qed

lemma token_port_proto: "token (str_int n @ ''/tcp'')"
  using not_space_str_int [of _ n] by (auto simp: token_def list_all_iff is_space_def)

lemma token_state: "state = ''open'' \<or> state = ''filtered'' \<Longrightarrow> token state"
  by (auto simp: token_def is_space_def)

lemma split_slash: "split_on CHR ''/'' (str_int n @ ''/tcp'') = [str_int n, ''tcp'']"
proof -
  have "CHR ''/'' \<notin> set (str_int n)" using str_int_chars [of "CHR ''/''" n] by (auto simp: is_digit_def)
  from split_on_from_piece [OF this, of "[]" "''/tcp''"] show ?thesis by (simp add: split_on_def)
qed

lemma strip_port_line:
  assumes "listed (n, state, service)"
  shows "strip (port_line (n, state, service)) = port_line (n, state, service)"
proof -
  let ?l = "str_int n @ ''/tcp '' @ state @ '' '' @ service"
  from assms have sv: "service \<noteq> []" "\<not> is_space (last service)"
    by (auto simp: listed_def token_def list_all_iff)
  have h: "hd ?l = hd (str_int n)" using str_int_nonempty [of n] by simp
  have "hd (str_int n) \<in> set (str_int n)" using str_int_nonempty [of n] by simp
  then have 1: "\<not> is_space (hd ?l)" using not_space_str_int h by metis
  have 2: "\<not> is_space (last ?l)" using sv by simp
  have "strip_chars is_space ?l = ?l" by (rule strip_chars_id) (use 1 2 in simp_all)
  then show ?thesis by (simp add: strip_def port_line_def)
qed

lemma text_line_step:
  assumes l: "listed (n, state, service)"
  shows "port_scan_text_line (port_line (n, state, service)) res
       = Inr (res\<lparr> res_ports := res_ports res @ [text_port_info (n, state, service)],
                    res_services := res_services res @ text_services (text_port_info (n, state, service)) \<rparr>)"
proof -
  let ?l = "port_line (n, state, service)"
  from l have st: "state = ''open'' \<or> state = ''filtered''" and sv: "token service"
    by (simp_all add: listed_def)
  have c1: "contains ''/tcp'' ?l"
    using contains_mid [of "''/tcp''" "str_int n" "'' '' @ state @ '' '' @ service"]
    by (simp add: port_line_def)
  have c2: "contains state ?l"
    using contains_mid [of state "str_int n @ ''/tcp ''" "'' '' @ service"]
    by (simp add: port_line_def)
  from c2 st have c3: "contains ''open'' ?l \<or> contains ''filtered'' ?l" by auto
  have parts: "split_ws ?l = [str_int n @ ''/tcp'', state, service]"
    using split_ws_three [OF token_port_proto [of n] token_state [OF st] sv]
    by (simp add: port_line_def)
  show ?thesis
    using c1 c3
    by (simp add: port_scan_text_line_def strip_port_line [OF l] parts index_def split_slash
          py_int_str_int text_port_info_def text_services_def Let_def)
qed

lemma text_lines_run:
  "list_all listed es \<Longrightarrow>
   for_each port_scan_text_line (map port_line es) res
     = Inr (res\<lparr> res_ports := res_ports res @ map text_port_info es,
                  res_services := res_services res @ concat (map text_services (map text_port_info es)) \<rparr>)"
proof (induction es arbitrary: res)
  case Nil
  then show ?case by simp
next
  case (Cons e es)
  obtain n state service where e: "e = (n, state, service)" by (cases e) auto
  from Cons.prems e have l: "listed (n, state, service)" and rest: "list_all listed es" by simp_all
  show ?case
    by (simp add: e text_line_step [OF l] Cons.IH [OF rest])
qed

lemma no_newline_in_line:
  assumes "listed e"
  shows "CHR 0x0A \<notin> set (port_line e)"
proof -
  obtain n state service where e: "e = (n, state, service)" by (cases e) auto
  have nl: "is_space (CHR 0x0A)" by (simp add: is_space_def)
  from assms e have "CHR 0x0A \<notin> set service" "CHR 0x0A \<notin> set state"
    using nl by (auto simp: listed_def token_def list_all_iff)
  moreover have "CHR 0x0A \<notin> set (str_int n)" using not_space_str_int nl by blast
  ultimately show ?thesis by (simp add: e port_line_def)
qed

lemma text_report_lines:
  assumes "es \<noteq> []" and "list_all listed es"
  shows "split_on (CHR 0x0A) (text_report es) = map port_line es"
proof -
  have "\<forall>x\<in>set (map port_line es). CHR 0x0A \<notin> set x"
    using assms(2) no_newline_in_line by (auto simp: list_all_iff)
  from split_on_join [OF _ this, of "[]"] assms(1) show ?thesis
    by (cases es) (simp_all add: split_on_def text_report_def)
qed

lemma parse_port_scan_text_report:
  assumes "es \<noteq> []" and "list_all listed es"
  shows "parse_port_scan_text (text_report es)
       = Inr \<lparr> res_ports = map text_port_info es, res_host_info = [],
               res_services = concat (map text_services (map text_port_info es)) \<rparr>"
  by (simp add: parse_port_scan_text_def text_report_lines [OF assms] text_lines_run [OF assms(2)]
        empty_findings_def)

lemma port_info_of_port_xml: "port_info_of (port_xml e) = Inr (xml_port_info e)"
proof -
  obtain n protocol state service where e: "e = (n, protocol, state, service)" by (cases e) auto
  show ?thesis
    by (cases service)
       (simp_all add: e port_info_of_def port_xml_def xml_port_info_def get_attr_def find_elem_def
          findall_def py_int_str_int Let_def)
qed

lemma record_xml_port:
  "record_port (xml_port_info e) res
     = Inr (res\<lparr> res_ports := res_ports res @ [xml_port_info e],
                  res_services := res_services res @ structured_services (xml_port_info e) \<rparr>)"
proof -
  obtain n protocol state service where e: "e = (n, protocol, state, service)" by (cases e) auto
  show ?thesis
    by (cases service)
       (simp_all add: e record_port_def xml_port_info_def structured_services_def Let_def)
qed

lemma port_element_port_xml:
  "port_element (port_xml e) res
     = Inr (res\<lparr> res_ports := res_ports res @ [xml_port_info e],
                  res_services := res_services res @ structured_services (xml_port_info e) \<rparr>)"
  by (simp add: port_element_def port_info_of_port_xml record_xml_port)

lemma port_elements_run:
  "for_each port_element (map port_xml es) res
     = Inr (res\<lparr> res_ports := res_ports res @ map xml_port_info es,
                  res_services := res_services res @ concat (map structured_services (map xml_port_info es)) \<rparr>)"
proof (induction es arbitrary: res)
  case Nil
  then show ?case by simp
next
  case (Cons e es)
  show ?case
    by (simp add: port_element_port_xml Cons.IH)
qed

lemma tag_port_xml: "tag (port_xml e) = ''port''"
  by (cases e) (simp add: port_xml_def)

lemma structured_findings_host_report:
  "structured_findings (host_report address es)
     = Inr \<lparr> res_ports = map xml_port_info es, res_host_info = [(''ip'', Some address)],
             res_services = concat (map structured_services (map xml_port_info es)) \<rparr>"
proof -
  have all: "filter (\<lambda>c. tag c = ''port'') (map port_xml es) = map port_xml es"
    by (simp add: tag_port_xml)
  show ?thesis
    by (simp add: structured_findings_def host_report_def findall_def host_element_def
          address_element_def get_attr_def all port_elements_run empty_findings_def Let_def)
qed

subsection \<open>The two paths\<close>

text \<open>
  C7 (as amended). The result is that of the text parser exactly when \<^verbatim>\<open>ET.fromstring\<close>
  raises \<^verbatim>\<open>ET.ParseError\<close>, and that of the structured path when the document parses,
  also when it has no host and the findings are empty. Both paths fill the findings: from a
  text report that does not parse, the fallback returns one port entry for each line, and
  from the tree of a host report the structured path returns one port entry for each port
  element and the address of the host. Whatever the text path returns has the text shape,
  whatever the structured path returns has the structured shape. The port entries of the
  two shapes are not alike: see \<open>text_port_entry\<close> and \<open>structured_port_entry\<close>.
\<close>

theorem parse_port_scan_results_paths:
  "(parse xml_output = ParseError \<longrightarrow>
      parse_port_scan_results parse xml_output = parse_port_scan_text xml_output)
 \<and> (parse xml_output = Parsed root \<longrightarrow>
      parse_port_scan_results parse xml_output = structured_findings root)
 \<and> (parse xml_output = Parsed root \<and> findall root ''host'' = [] \<longrightarrow>
      parse_port_scan_results parse xml_output = Inr empty_findings)
 \<and> (es \<noteq> [] \<and> list_all listed es \<and> parse (text_report es) = ParseError \<longrightarrow>
      parse_port_scan_results parse (text_report es)
        = Inr \<lparr> res_ports = map text_port_info es, res_host_info = [],
                res_services = concat (map text_services (map text_port_info es)) \<rparr>)
 \<and> (parse xml_output = Parsed (host_report address xs) \<longrightarrow>
      parse_port_scan_results parse xml_output
        = Inr \<lparr> res_ports = map xml_port_info xs, res_host_info = [(''ip'', Some address)],
                res_services = concat (map structured_services (map xml_port_info xs)) \<rparr>)
 \<and> (parse_port_scan_text xml_output = Inr f \<longrightarrow> text_shape f)
 \<and> (structured_findings root = Inr f \<longrightarrow> structured_shape f)"
proof -
  have 1: "parse xml_output = ParseError \<longrightarrow>
      parse_port_scan_results parse xml_output = parse_port_scan_text xml_output"
    by (simp add: parse_port_scan_results_def)
  have 2: "parse xml_output = Parsed root \<longrightarrow>
      parse_port_scan_results parse xml_output = structured_findings root"
    by (simp add: parse_port_scan_results_def)
  have 3: "parse xml_output = Parsed root \<and> findall root ''host'' = [] \<longrightarrow>
      parse_port_scan_results parse xml_output = Inr empty_findings"
    by (simp add: parse_port_scan_results_def structured_findings_def)
  have 4: "es \<noteq> [] \<and> list_all listed es \<and> parse (text_report es) = ParseError \<longrightarrow>
      parse_port_scan_results parse (text_report es)
        = Inr \<lparr> res_ports = map text_port_info es, res_host_info = [],
                res_services = concat (map text_services (map text_port_info es)) \<rparr>"
    using parse_port_scan_text_report [of es] by (simp add: parse_port_scan_results_def)
  have 5: "parse xml_output = Parsed (host_report address xs) \<longrightarrow>
      parse_port_scan_results parse xml_output
        = Inr \<lparr> res_ports = map xml_port_info xs, res_host_info = [(''ip'', Some address)],
                res_services = concat (map structured_services (map xml_port_info xs)) \<rparr>"
    using structured_findings_host_report [of address xs] by (simp add: parse_port_scan_results_def)
  have 6: "parse_port_scan_text xml_output = Inr f \<longrightarrow> text_shape f"
    using parse_port_scan_text_shape by blast
  have 7: "structured_findings root = Inr f \<longrightarrow> structured_shape f"
    using structured_findings_shape by blast
  from 1 2 3 4 5 6 7 show ?thesis by blast
qed

text \<open>
  C7 on four inputs: a text report with two lines, the document of a host with two ports,
  a report cut off before its closing tag, from which the fallback recovers port 22, and the
  report without hosts, in which the text parser would find port 22 but is not asked.
\<close>

theorem parse_port_scan_results_paths_witness:
  "parse_port_scan_results report_fromstring (text_report [(22, ''open'', ''ssh''), (80, ''filtered'', ''unknown'')])
     = Inr \<lparr> res_ports =
               [\<lparr> pi_port = 22, pi_protocol = Some ''tcp'', pi_state = Some ''open'',
                   pi_service = Some ''ssh'', pi_version = None, pi_product = None \<rparr>,
                \<lparr> pi_port = 80, pi_protocol = Some ''tcp'', pi_state = Some ''filtered'',
                   pi_service = Some ''unknown'', pi_version = None, pi_product = None \<rparr>],
             res_host_info = [],
             res_services = [\<lparr> si_port = 22, si_service = ''ssh'', si_version = None, si_product = None \<rparr>] \<rparr>
 \<and> parse_port_scan_results report_fromstring host_report_text
     = Inr \<lparr> res_ports =
               [\<lparr> pi_port = 22, pi_protocol = Some ''tcp'', pi_state = Some ''open'',
                   pi_service = Some ''ssh'', pi_version = None, pi_product = Some None \<rparr>,
                \<lparr> pi_port = 80, pi_protocol = Some ''tcp'', pi_state = Some ''open'',
                   pi_service = None, pi_version = None, pi_product = None \<rparr>],
             res_host_info = [(''ip'', Some ''10.0.0.5'')],
             res_services = [\<lparr> si_port = 22, si_service = ''ssh'', si_version = None, si_product = None \<rparr>] \<rparr>
 \<and> parse_port_scan_results report_fromstring truncated_report
     = Inr \<lparr> res_ports =
               [\<lparr> pi_port = 22, pi_protocol = Some ''tcp'', pi_state = Some ''open'',
                   pi_service = Some ''ssh'', pi_version = None, pi_product = None \<rparr>],
             res_host_info = [],
             res_services = [\<lparr> si_port = 22, si_service = ''ssh'', si_version = None, si_product = None \<rparr>] \<rparr>
 \<and> parse_port_scan_results report_fromstring report_without_hosts = Inr empty_findings
 \<and> parse_port_scan_text report_without_hosts
     = Inr \<lparr> res_ports =
               [\<lparr> pi_port = 22, pi_protocol = Some ''tcp'', pi_state = Some ''open'',
                   pi_service = Some ''ssh'', pi_version = None, pi_product = None \<rparr>],
             res_host_info = [],
             res_services = [\<lparr> si_port = 22, si_service = ''ssh'', si_version = None, si_product = None \<rparr>] \<rparr>
 \<and> text_shape
       \<lparr> res_ports =
               [\<lparr> pi_port = 22, pi_protocol = Some ''tcp'', pi_state = Some ''open'',
                   pi_service = Some ''ssh'', pi_version = None, pi_product = None \<rparr>],
             res_host_info = [],
             res_services = [\<lparr> si_port = 22, si_service = ''ssh'', si_version = None, si_product = None \<rparr>] \<rparr>
 \<and> structured_shape empty_findings"
proof -
  let ?es = "[(22, ''open'', ''ssh''), (80, ''filtered'', ''unknown'')] :: (int \<times> string \<times> string) list"
  let ?xs = "[(22, ''tcp'', ''open'', Some ''ssh''), (80, ''tcp'', ''open'', None)]
               :: (int \<times> string \<times> string \<times> string option) list"
  let ?found = "\<lparr> res_ports =
               [\<lparr> pi_port = 22, pi_protocol = Some ''tcp'', pi_state = Some ''open'',
                   pi_service = Some ''ssh'', pi_version = None, pi_product = None \<rparr>],
             res_host_info = [],
             res_services = [\<lparr> si_port = 22, si_service = ''ssh'', si_version = None, si_product = None \<rparr>] \<rparr>"
  have es: "?es \<noteq> []" "list_all listed ?es" by (simp_all add: listed_def token_def is_space_def)
  have t: "report_fromstring (text_report ?es) = ParseError" by code_simp
  have h: "report_fromstring host_report_text = Parsed (host_report ''10.0.0.5'' ?xs)"
    by (simp add: report_fromstring_def)
  have w: "report_fromstring report_without_hosts = Parsed (Element ''nmaprun'' [] [])" by code_simp
  have nohost: "findall (Element ''nmaprun'' [] []) ''host'' = []" by (simp add: findall_def)
  have tfound: "parse_port_scan_text report_without_hosts = Inr ?found" by code_simp
  have emp: "structured_findings (Element ''nmaprun'' [] []) = Inr empty_findings" by code_simp
  note inst_text = parse_port_scan_results_paths [of report_fromstring "text_report ?es" _ ?es]
  note inst_host = parse_port_scan_results_paths [of report_fromstring host_report_text _ _ "''10.0.0.5''" ?xs]
  note inst_none = parse_port_scan_results_paths [of report_fromstring report_without_hosts "Element ''nmaprun'' [] []" _ _ _ ?found]
  note inst_emp = parse_port_scan_results_paths [of _ _ "Element ''nmaprun'' [] []" _ _ _ empty_findings]
  from inst_text es t have a: "parse_port_scan_results report_fromstring (text_report ?es)
      = Inr \<lparr> res_ports = map text_port_info ?es, res_host_info = [],
              res_services = concat (map text_services (map text_port_info ?es)) \<rparr>"
    by blast
  from inst_host h have b: "parse_port_scan_results report_fromstring host_report_text
      = Inr \<lparr> res_ports = map xml_port_info ?xs, res_host_info = [(''ip'', Some ''10.0.0.5'')],
              res_services = concat (map structured_services (map xml_port_info ?xs)) \<rparr>"
    by blast
  from inst_none w nohost have c: "parse_port_scan_results report_fromstring report_without_hosts
      = Inr empty_findings" by blast
  from inst_none tfound have d: "text_shape ?found" by blast
  from inst_emp emp have e: "structured_shape empty_findings" by blast
  from a have a': "parse_port_scan_results report_fromstring (text_report ?es)
     = Inr \<lparr> res_ports =
               [\<lparr> pi_port = 22, pi_protocol = Some ''tcp'', pi_state = Some ''open'',
                   pi_service = Some ''ssh'', pi_version = None, pi_product = None \<rparr>,
                \<lparr> pi_port = 80, pi_protocol = Some ''tcp'', pi_state = Some ''filtered'',
                   pi_service = Some ''unknown'', pi_version = None, pi_product = None \<rparr>],
             res_host_info = [],
             res_services = [\<lparr> si_port = 22, si_service = ''ssh'', si_version = None, si_product = None \<rparr>] \<rparr>"
    by (simp add: text_port_info_def text_services_def)
  from b have b': "parse_port_scan_results report_fromstring host_report_text
     = Inr \<lparr> res_ports =
               [\<lparr> pi_port = 22, pi_protocol = Some ''tcp'', pi_state = Some ''open'',
                   pi_service = Some ''ssh'', pi_version = None, pi_product = Some None \<rparr>,
                \<lparr> pi_port = 80, pi_protocol = Some ''tcp'', pi_state = Some ''open'',
                   pi_service = None, pi_version = None, pi_product = None \<rparr>],
             res_host_info = [(''ip'', Some ''10.0.0.5'')],
             res_services = [\<lparr> si_port = 22, si_service = ''ssh'', si_version = None, si_product = None \<rparr>] \<rparr>"
    by (simp add: xml_port_info_def structured_services_def)
  have cut: "report_fromstring truncated_report = ParseError" by code_simp
  have cut_found: "parse_port_scan_text truncated_report = Inr ?found" by code_simp
  from parse_port_scan_results_paths [of report_fromstring truncated_report] cut
  have "parse_port_scan_results report_fromstring truncated_report = parse_port_scan_text truncated_report"
    by blast
  with cut_found have g: "parse_port_scan_results report_fromstring truncated_report = Inr ?found"
    by simp
  from a' b' g c tfound d e show ?thesis by blast
qed

text \<open>
  C7 as stated fails where it says that both paths fill the same shape. For the same port,
  22/tcp open with service ssh, the entry of the text path has no \<^verbatim>\<open>product\<close> key and the
  entry of the structured path has one. For a port without service, the text path sets the
  service to \<^verbatim>\<open>unknown\<close> and the structured path to \<^verbatim>\<open>None\<close>.
\<close>

theorem port_entry_shapes_differ:
  "entry_keys_of (parse_port_scan_text ''22/tcp open ssh'')
     = Inr [[''port'', ''protocol'', ''state'', ''service'', ''version'']]
 \<and> entry_keys_of (structured_findings (host_report ''10.0.0.5'' [(22, ''tcp'', ''open'', Some ''ssh'')]))
     = Inr [[''port'', ''protocol'', ''state'', ''service'', ''version'', ''product'']]
 \<and> entry_services_of (parse_port_scan_text ''80/tcp open'') = Inr [Some ''unknown'']
 \<and> entry_services_of (structured_findings (host_report ''10.0.0.5'' [(80, ''tcp'', ''open'', None)]))
     = Inr [None]"
  by code_simp

section \<open>Properties of the rate limiter\<close>

lemma wait_in_returns:
  assumes "''timedelta'' \<in> set globals" and "0 < requests_per_minute self"
  shows "\<exists>slept limiter. wait_in globals self now = Inr (slept, limiter)
           \<and> 0 \<le> slept \<and> requests_per_minute limiter = requests_per_minute self"
proof (cases "filter (\<lambda>t. now - minute < t) (request_times self)")
  case Nil
  with assms show ?thesis by (simp add: wait_in_def Let_def)
next
  case (Cons t ts)
  with assms show ?thesis by (simp add: wait_in_def Let_def)
qed

lemma wait_in_fourth_call:
  "wait_in (''timedelta'' # module_globals) \<lparr> requests_per_minute = 3, request_times = [0, 0, 0] \<rparr> 0
     = Inr (minute, \<lparr> requests_per_minute = 3, request_times = [0, 0, 0, 0] \<rparr>)"
  by (simp add: wait_in_def minute_def)

text \<open>
  C3 fails on the code. \<^verbatim>\<open>wait\<close> names \<^verbatim>\<open>timedelta\<close> on line 692, which the module
  never imports: every call raises \<^verbatim>\<open>NameError\<close> before it trims or records anything.
  The claim promises that every call returns.
\<close>

theorem wait_raises_name_error:
  "wait self now = Inl (NameError ''timedelta'')"
  by (simp add: wait_def wait_in_def module_globals_def)

section \<open>Properties of the batch scan\<close>

lemma control_call_unregistered:
  "active_scans self sid = None \<Longrightarrow> active_scans (control_call c self) sid = None"
  by (cases c) (auto simp: pause_scan_def resume_scan_def cancel_scan_def split: option.splits)

lemma control_call_limiter: "rate_limiter (control_call c self) = rate_limiter self"
  by (cases c) (auto simp: pause_scan_def resume_scan_def cancel_scan_def split: option.splits)

lemma control_calls_unregistered:
  "active_scans self sid = None \<Longrightarrow> active_scans (fold control_call calls self) sid = None"
  by (induction calls arbitrary: self) (auto simp: control_call_unregistered)

lemma control_calls_limiter: "rate_limiter (fold control_call calls self) = rate_limiter self"
  by (induction calls arbitrary: self) (auto simp: control_call_limiter)

lemma suspend_unregistered:
  assumes "active_scans self sid = None"
  shows "\<exists>self' clock' sched'. suspend elapsed (self, clock, sched) = (self', clock', sched')
           \<and> active_scans self' sid = None \<and> rate_limiter self' = rate_limiter self"
  using assms by (cases sched) (auto simp: control_calls_unregistered control_calls_limiter)

lemma scan_single_target_result:
  "res_target (fst (scan_single_target P tgt scan_type intensity clock)) = target tgt
   \<and> (status (fst (scan_single_target P tgt scan_type intensity clock)) = ''completed''
      \<or> status (fst (scan_single_target P tgt scan_type intensity clock)) = ''error'')"
  by (auto simp: scan_single_target_def failed_scan_def Let_def
           split: prod.splits proc_outcome.splits sum.splits)

lemma limit_and_scan_returns:
  assumes td: "''timedelta'' \<in> set (global_names P)"
      and rpm: "0 < requests_per_minute (rate_limiter self)"
      and unreg: "active_scans self sid = None"
  shows "\<exists>r self' clock' sched'.
           limit_and_scan P tgt scan_type intensity (self, clock, sched) = Returns r (self', clock', sched')
         \<and> res_target r = target tgt
         \<and> (status r = ''completed'' \<or> status r = ''error'')
         \<and> active_scans self' sid = None
         \<and> 0 < requests_per_minute (rate_limiter self')"
proof -
  from wait_in_returns [OF td rpm, of clock] obtain slept limiter where
    w: "wait_in (global_names P) (rate_limiter self) clock = Inr (slept, limiter)"
    and l: "requests_per_minute limiter = requests_per_minute (rate_limiter self)" by blast
  let ?s1 = "self\<lparr> rate_limiter := limiter \<rparr>"
  have u1: "active_scans ?s1 sid = None" using unreg by simp
  obtain s2 c2 q2 where w2: "(if slept > 0 then suspend slept (?s1, clock, sched) else (?s1, clock, sched)) = (s2, c2, q2)"
    and u2: "active_scans s2 sid = None" and l2: "rate_limiter s2 = limiter"
  proof (cases "slept > 0")
    case True
    from suspend_unregistered [OF u1, of slept clock sched] obtain a b c where
      "suspend slept (?s1, clock, sched) = (a, b, c)" "active_scans a sid = None" "rate_limiter a = limiter"
      by auto
    with True that show ?thesis by simp
  next
    case False
    with u1 that show ?thesis by simp
  qed
  obtain r ended where sc: "scan_single_target P tgt scan_type intensity c2 = (r, ended)"
    by (cases "scan_single_target P tgt scan_type intensity c2")
  from scan_single_target_result [of P tgt scan_type intensity c2] sc
  have rt: "res_target r = target tgt" and st: "status r = ''completed'' \<or> status r = ''error''"
    by simp_all
  from suspend_unregistered [OF u2, of "ended - c2" c2 q2] obtain s3 c3 q3 where
    s3: "suspend (ended - c2) (s2, c2, q2) = (s3, c3, q3)" and u3: "active_scans s3 sid = None"
    and l3: "rate_limiter s3 = rate_limiter s2" by blast
  have "limit_and_scan P tgt scan_type intensity (self, clock, sched) = Returns r (s3, c3, q3)"
    using w w2 sc s3 by (simp add: limit_and_scan_def Let_def)
  moreover have "0 < requests_per_minute (rate_limiter s3)" using l3 l2 l rpm by simp
  ultimately show ?thesis using rt st u3 by blast
qed

lemma port_scan_round_unregistered:
  assumes td: "''timedelta'' \<in> set (global_names P)"
      and rpm: "0 < requests_per_minute (rate_limiter self)"
      and unreg: "active_scans self sid = None"
  shows "\<exists>r self' clock' sched'.
           port_scan_round P sid tgt scan_type intensity (self, clock, sched)
             = Returns (Some r) (self', clock', sched')
         \<and> res_target r = target tgt
         \<and> (status r = ''completed'' \<or> status r = ''error'')
         \<and> active_scans self' sid = None
         \<and> 0 < requests_per_minute (rate_limiter self')"
proof -
  from limit_and_scan_returns [OF td rpm unreg, of tgt scan_type intensity clock sched]
  obtain r s' c' q' where
    "limit_and_scan P tgt scan_type intensity (self, clock, sched) = Returns r (s', c', q')"
    "res_target r = target tgt" "status r = ''completed'' \<or> status r = ''error''"
    "active_scans s' sid = None" "0 < requests_per_minute (rate_limiter s')" by blast
  then show ?thesis using unreg by (simp add: port_scan_round_def)
qed

lemma port_scan_loop_unregistered:
  assumes td: "''timedelta'' \<in> set (global_names P)"
  shows "0 < requests_per_minute (rate_limiter self) \<Longrightarrow> active_scans self sid = None \<Longrightarrow>
         \<exists>rs w'. port_scan_loop P sid targets scan_type intensity scanned (self, clock, sched)
                    = Returns (scanned @ rs) w'
                \<and> map res_target rs = map target targets
                \<and> ''running'' \<notin> set (map status rs)"
proof (induction targets arbitrary: scanned self clock sched)
  case Nil
  then show ?case by simp
next
  case (Cons tgt targets)
  from port_scan_round_unregistered [OF td Cons.prems, of tgt scan_type intensity clock sched]
  obtain r s' c' q' where
    round: "port_scan_round P sid tgt scan_type intensity (self, clock, sched) = Returns (Some r) (s', c', q')"
    and rt: "res_target r = target tgt" and st: "status r = ''completed'' \<or> status r = ''error''"
    and u: "active_scans s' sid = None" and l: "0 < requests_per_minute (rate_limiter s')" by blast
  from Cons.IH [OF l u, of "scanned @ [r]" c' q'] obtain rs w' where
    rest: "port_scan_loop P sid targets scan_type intensity (scanned @ [r]) (s', c', q') = Returns ((scanned @ [r]) @ rs) w'"
    and m: "map res_target rs = map target targets" and n: "''running'' \<notin> set (map status rs)" by blast
  have "port_scan_loop P sid (tgt # targets) scan_type intensity scanned (self, clock, sched)
      = Returns (scanned @ (r # rs)) w'"
    using round rest by simp
  moreover have "map res_target (r # rs) = map target (tgt # targets)" using rt m by simp
  moreover have "''running'' \<notin> set (map status (r # rs))" using st n by auto
  ultimately show ?case by blast
qed

lemma port_scan_ignores_every_cancel:
  assumes "''timedelta'' \<in> set (global_names P)"
      and "0 < requests_per_minute (rate_limiter self)"
      and "active_scans self (''port_scan_'' @ now_iso) = None"
  shows "\<exists>rs w'. port_scan P now_iso targets scan_type intensity (self, clock, sched) = Returns rs w'
                \<and> map res_target rs = map target targets"
  using port_scan_loop_unregistered [OF assms, of targets scan_type intensity "[]" clock sched]
  by (auto simp: port_scan_def)

lemma port_scan_raises_in_module:
  assumes "global_names P = module_globals"
      and "active_scans self (''port_scan_'' @ now_iso) = None"
  shows "port_scan P now_iso (tgt # targets) scan_type intensity (self, clock, sched)
           = Raises (NameError ''timedelta'') (self, clock, sched)"
  using assms
  by (simp add: port_scan_def port_scan_round_def limit_and_scan_def wait_in_def module_globals_def)

text \<open>
  C2 fails on the code. Five targets are submitted and \<^verbatim>\<open>cancel_scan\<close> is called with the
  id of the batch while the second target is scanned. In the module as it is, the batch
  raises \<^verbatim>\<open>NameError\<close> at its first call of the rate limiter and returns no list. With
  \<^verbatim>\<open>timedelta\<close> imported, all five targets are scanned: \<^verbatim>\<open>port_scan\<close> never enters its
  id into \<^verbatim>\<open>active_scans\<close>, so \<^verbatim>\<open>cancel_scan\<close> returns false and sets no flag. The claim
  promises a list of at most two results.
\<close>

theorem port_scan_cancel_not_honoured:
  "(case port_scan module_platform ''2024-01-01T00:00:00'' five_targets ''tcp_connect'' NORMAL
           (new_scanner, 0, cancel_during_second ''2024-01-01T00:00:00'') of
      Raises e w \<Rightarrow> e = NameError ''timedelta'' | Returns rs w \<Rightarrow> False | Forever \<Rightarrow> False)
 \<and> (case port_scan module_with_timedelta ''2024-01-01T00:00:00'' five_targets ''tcp_connect'' NORMAL
           (new_scanner, 0, cancel_during_second ''2024-01-01T00:00:00'') of
      Returns rs w \<Rightarrow> map res_target rs = [''10.0.0.1'', ''10.0.0.2'', ''10.0.0.3'', ''10.0.0.4'', ''10.0.0.5'']
    | Raises e w \<Rightarrow> False | Forever \<Rightarrow> False)
 \<and> fst (cancel_scan new_scanner ''port_scan_2024-01-01T00:00:00'') = False"
  by code_simp

end
